theory Spec2Isabelle
  imports
    Main
    "HOL-Library.Multiset"
    "HOL-Library.Product_Lexorder"
    "HOL-Library.List_Lexorder"
    "HOL-Library.Char_ord"
begin

section \<open>Conversation store gateway (utils/firebase_utils.py)\<close>

text \<open>
  The module keeps one global, \<open>db\<close>, and talks to three things outside itself: the
  process environment (\<open>os.getenv\<close>, \<open>os.path.exists\<close>), the credential and client
  constructors of the Google libraries, and the remote document store. None of them is
  code of this module, so each is a parameter: a \<open>world\<close> holds what the outside
  answers during one call, and the store's contents are part of the state that is passed
  from call to call. Every outside call is also written to a trace, so that a theorem can
  say which calls an operation made.
\<close>

subsection \<open>Values\<close>

text \<open>
  What \<open>json.loads\<close> can return. An object is the list of the items of the Python
  dictionary (its keys are distinct), and \<open>JNull\<close> is Python's \<open>None\<close>.
\<close>

datatype json =
    JNull
  | JBool bool
  | JNum int
  | JStr string
  | JArr "json list"
  | JObj "(string \<times> json) list"

text \<open>
  Service-account credentials and a client handle are opaque here: each is identified by
  the arguments it was built from (\<open>firestore.Client(credentials=..., project=...)\<close>;
  both are \<open>None\<close> for \<open>firestore.Client()\<close>).
\<close>

datatype creds = Credentials json

datatype client = Client "creds option" "json option"

text \<open>
  Exceptions, all of them subclasses of Python's \<open>Exception\<close> (what the library calls
  raise, and what \<open>except Exception\<close> catches).
\<close>

datatype exn =
    JSONDecodeError
  | ValueError
  | AttributeError
  | DefaultCredentialsError
  | Conflict
  | OtherError string
  | HTTPException nat string

text \<open>
  A value in a dictionary handed to the store for writing is a string or the sentinel
  \<open>firestore.SERVER_TIMESTAMP\<close>; a stored value is a string or a timestamp (the server's
  commit time, a number of microseconds).
\<close>

datatype wval = WStr string | SERVER_TIMESTAMP

datatype fval = Str string | Timestamp nat

type_synonym fields = "string \<Rightarrow> fval option"

type_synonym docs = "(string \<times> fields) list"

datatype direction = ASCENDING | DESCENDING

datatype event =
    Getenv string
  | PathExists string
  | JsonLoads string
  | FromServiceAccountInfo json
  | NewClient "creds option" "json option"
  | StoreWrite string string
  | StoreQuery string

text \<open>
  The outside world during one call: the environment variables, the file system, the
  outcome of each library call, the first and the other characters of the identifier the
  store's client generates for a new document, the server's clock at the write, and the
  text of \<open>str(datetime.utcnow().timestamp())\<close>.
\<close>

record world =
  getenv :: "string \<Rightarrow> string option"
  path_exists :: "string \<Rightarrow> bool"
  json_loads :: "string \<Rightarrow> exn + json"
  from_service_account_info :: "json \<Rightarrow> exn + creds"
  new_Client :: "creds option \<Rightarrow> json option \<Rightarrow> exn + client"
  auto_id_head :: char
  auto_id_tail :: string
  server_time :: nat
  utcnow_timestamp_str :: string

text \<open>
  Modelled from the spec: the identifier the store's client generates for a new document
  (the generator is absent from the sources). The spec calls it generated by the store and
  non-empty; so it is any string that has a first character, and nothing says that it
  differs from the identifiers in use.
\<close>

definition auto_id :: "world \<Rightarrow> string" where
  "auto_id w = auto_id_head w # auto_id_tail w"

text \<open>
  The state: the module's global \<open>db\<close>, the remote store (collection name to documents,
  each a document identifier with its fields), and the trace of outside calls.
\<close>

record state =
  db :: "client option"
  store :: "string \<Rightarrow> docs"
  trace :: "event list"

definition log :: "event \<Rightarrow> state \<Rightarrow> state" where
  "log e s = s\<lparr>trace := trace s @ [e]\<rparr>"

definition init :: state where
  "init = \<lparr>db = None, store = (\<lambda>_. []), trace = []\<rparr>"

subsection \<open>Handle acquisition\<close>

text \<open>Python's truth value of \<open>os.getenv(...)\<close>: \<open>None\<close> and the empty string are false.\<close>

definition truthy :: "string option \<Rightarrow> bool" where
  "truthy v = (case v of None \<Rightarrow> False | Some x \<Rightarrow> x \<noteq> [])"

text \<open>
  \<open>info.get("project_id")\<close>: only a dictionary has \<open>get\<close>. The result is Python's
  \<open>None\<close> (here \<open>None\<close>) for a missing key and for a key whose value is \<open>null\<close>
  alike.
\<close>

definition dict_get :: "json \<Rightarrow> string \<Rightarrow> exn + json option" where
  "dict_get info k =
     (case info of
        JObj kvs \<Rightarrow> Inr (case map_of kvs k of Some JNull \<Rightarrow> None | r \<Rightarrow> r)
      | _ \<Rightarrow> Inl AttributeError)"

text \<open>
  Lines 34 to 38 of \<open>get_db\<close>: the client from the inline credential blob. The import
  on line 34 is of a package that the import of \<open>firestore\<close> on line 5 has loaded
  already, so it is no step of its own here.
\<close>

definition service_account_client :: "world \<Rightarrow> string \<Rightarrow> state \<Rightarrow> (exn + client) \<times> state" where
  "service_account_client w firebase_json s =
     (let s1 = log (JsonLoads firebase_json) s in
      case json_loads w firebase_json of
        Inl e \<Rightarrow> (Inl e, s1)
      | Inr info \<Rightarrow>
          (let s2 = log (FromServiceAccountInfo info) s1 in
           case from_service_account_info w info of
             Inl e \<Rightarrow> (Inl e, s2)
           | Inr cr \<Rightarrow>
               (case dict_get info ''project_id'' of
                  Inl e \<Rightarrow> (Inl e, s2)
                | Inr project \<Rightarrow>
                    (let s3 = log (NewClient (Some cr) project) s2 in
                     case new_Client w (Some cr) project of
                       Inl e \<Rightarrow> (Inl e, s3)
                     | Inr c \<Rightarrow> (Inr c, s3\<lparr>db := Some c\<rparr>)))))"

text \<open>\<open>db = firestore.Client(); return db\<close>, as lines 43-44 and 47-48 both have it.\<close>

definition default_client :: "world \<Rightarrow> state \<Rightarrow> (exn + client) \<times> state" where
  "default_client w s =
     (let s1 = log (NewClient None None) s in
      case new_Client w None None of
        Inl e \<Rightarrow> (Inl e, s1)
      | Inr c \<Rightarrow> (Inr c, s1\<lparr>db := Some c\<rparr>))"

text \<open>The body of the \<open>try\<close> block, lines 30 to 48.\<close>

definition try_body :: "world \<Rightarrow> state \<Rightarrow> (exn + client) \<times> state" where
  "try_body w s =
     (let s1 = log (Getenv ''FIREBASE_CREDENTIALS_JSON'') s;
          firebase_json = getenv w ''FIREBASE_CREDENTIALS_JSON'';
          s2 = log (Getenv ''GOOGLE_APPLICATION_CREDENTIALS'') s1;
          cred_path = getenv w ''GOOGLE_APPLICATION_CREDENTIALS''
      in
      if truthy firebase_json then
        service_account_client w (case firebase_json of Some x \<Rightarrow> x | None \<Rightarrow> []) s2
      else if truthy cred_path then
        (let p = (case cred_path of Some x \<Rightarrow> x | None \<Rightarrow> []);
             s3 = log (PathExists p) s2
         in if path_exists w p then default_client w s3 else default_client w s3)
      else default_client w s2)"

text \<open>
  \<open>get_db\<close>: the cached handle when there is one; otherwise the \<open>try\<close> block, and the
  handler that turns any exception into \<open>db = None; return None\<close>. The result is a sum,
  as for every Python call: \<open>Inl\<close> would be an exception leaving \<open>get_db\<close>.
\<close>

definition get_db :: "world \<Rightarrow> state \<Rightarrow> (exn + client option) \<times> state" where
  "get_db w s =
     (case db s of
        Some c \<Rightarrow> (Inr (Some c), s)
      | None \<Rightarrow>
          (case try_body w s of
             (Inr c, s') \<Rightarrow> (Inr (Some c), s')
           | (Inl e, s') \<Rightarrow> (Inr None, s'\<lparr>db := None\<rparr>)))"

subsection \<open>The document store\<close>

text \<open>
  Modelled from the spec: the document store. Its client library
  (\<open>google.cloud.firestore\<close>) is not among the sources; the spec describes the store as
  named collections of records that are inserted with a generated identifier and a
  server-assigned timestamp, and queried by an equality filter and ordered by creation
  time. Where the spec is silent the definitions follow the service's documented
  behaviour: \<open>set\<close> replaces a document of the same name, \<open>add\<close> raises when the name
  is taken, \<open>order_by\<close> leaves out the documents that lack the field and breaks ties by
  document name, in the direction asked for. Every call here succeeds: the network is up
  and the store has the index the query needs. A failure there would leave the operation
  as an exception, as the source does not catch it.
\<close>

text \<open>
  Modelled from the spec: the server's part of a write (absent from the sources), which
  replaces \<open>SERVER_TIMESTAMP\<close> by the server's clock.
\<close>

definition resolve :: "nat \<Rightarrow> (string \<Rightarrow> wval option) \<Rightarrow> fields" where
  "resolve now d =
     (\<lambda>k. case d k of
            None \<Rightarrow> None
          | Some (WStr x) \<Rightarrow> Some (Str x)
          | Some SERVER_TIMESTAMP \<Rightarrow> Some (Timestamp now))"

text \<open>
  Modelled from the spec: \<open>DocumentReference.set\<close> (absent from the sources), which
  writes the document under its name, in place of a document of that name if there is one.
\<close>

fun upsert :: "string \<Rightarrow> fields \<Rightarrow> docs \<Rightarrow> docs" where
  "upsert i d [] = [(i, d)]"
| "upsert i d ((j, e) # xs) = (if i = j then (i, d) # xs else (j, e) # upsert i d xs)"

definition doc_set :: "world \<Rightarrow> string \<Rightarrow> string \<Rightarrow> (string \<Rightarrow> wval option) \<Rightarrow> state \<Rightarrow> state" where
  "doc_set w coll i d s =
     (log (StoreWrite coll i) s)
       \<lparr>store := (store s)(coll := upsert i (resolve (server_time w) d) (store s coll))\<rparr>"

text \<open>
  Modelled from the spec: \<open>CollectionReference.add\<close> (absent from the sources), which
  creates a document under a generated name and raises when the name is taken.
\<close>

definition coll_add :: "world \<Rightarrow> string \<Rightarrow> (string \<Rightarrow> wval option) \<Rightarrow> state \<Rightarrow> (exn + string) \<times> state" where
  "coll_add w coll d s =
     (let i = auto_id w;
          s1 = log (StoreWrite coll i) s
      in if i \<in> set (map fst (store s coll)) then (Inl Conflict, s1)
         else (Inr i, s1\<lparr>store := (store s)(coll := store s coll @ [(i, resolve (server_time w) d)])\<rparr>))"

text \<open>
  Modelled from the spec: the store's order on field values (absent from the sources).
  Timestamps are ordered by time, strings as strings, and a timestamp is before a string.
  A document's sort key for a field is the field's value, then the document's name.
\<close>

definition fval_key :: "fval \<Rightarrow> nat \<times> nat \<times> string" where
  "fval_key v = (case v of Timestamp t \<Rightarrow> (0, t, []) | Str x \<Rightarrow> (1, 0, x))"

definition order_key :: "string \<Rightarrow> fields \<Rightarrow> nat \<times> nat \<times> string" where
  "order_key f d = (case d f of Some v \<Rightarrow> fval_key v | None \<Rightarrow> (0, 0, []))"

definition sort_field :: "string \<Rightarrow> string \<times> fields \<Rightarrow> (nat \<times> nat \<times> string) \<times> string" where
  "sort_field f x = (order_key f (snd x), fst x)"

text \<open>
  Modelled from the spec: \<open>where(field, "==", value)\<close> (absent from the sources), the
  documents whose field has that value.
\<close>

definition where_eq :: "string \<Rightarrow> fval \<Rightarrow> docs \<Rightarrow> docs" where
  "where_eq f v xs = filter (\<lambda>x. snd x f = Some v) xs"

text \<open>
  Modelled from the spec: \<open>order_by(field, direction)\<close> (absent from the sources), the
  documents that have the field, sorted by it and then by name, ascending or descending.
\<close>

definition order_by :: "string \<Rightarrow> direction \<Rightarrow> docs \<Rightarrow> docs" where
  "order_by f dir xs =
     (let ys = sort_key (sort_field f) (filter (\<lambda>x. snd x f \<noteq> None) xs)
      in case dir of ASCENDING \<Rightarrow> ys | DESCENDING \<Rightarrow> rev ys)"

text \<open>
  Modelled from the spec: \<open>stream()\<close> and \<open>to_dict()\<close> (absent from the sources), the
  field mappings of the documents in the order of the query.
\<close>

definition to_dicts :: "docs \<Rightarrow> fields list" where
  "to_dicts xs = map snd xs"

subsection \<open>The four operations\<close>

definition create_new_chat :: "world \<Rightarrow> string \<Rightarrow> string \<Rightarrow> state \<Rightarrow> (exn + string) \<times> state" where
  "create_new_chat w uid title s =
     (case get_db w s of
        (Inl e, s1) \<Rightarrow> (Inl e, s1)
      | (Inr None, s1) \<Rightarrow>
          (Inl (HTTPException 503 ''Firestore is not configured. Set GOOGLE_APPLICATION_CREDENTIALS or FIREBASE_CREDENTIALS_JSON in environment.''), s1)
      | (Inr (Some c), s1) \<Rightarrow>
          (let doc_ref = auto_id w;
               s2 = doc_set w ''conversations'' doc_ref
                      [''id'' \<mapsto> WStr doc_ref,
                       ''title'' \<mapsto> WStr title,
                       ''createdAt'' \<mapsto> SERVER_TIMESTAMP,
                       ''uid'' \<mapsto> WStr uid] s1
           in (Inr doc_ref, s2)))"

definition get_chat_threads :: "world \<Rightarrow> string \<Rightarrow> state \<Rightarrow> (exn + fields list) \<times> state" where
  "get_chat_threads w uid s =
     (case get_db w s of
        (Inl e, s1) \<Rightarrow> (Inl e, s1)
      | (Inr None, s1) \<Rightarrow>
          (Inl (HTTPException 503 ''Firestore is not configured. Set GOOGLE_APPLICATION_CREDENTIALS or FIREBASE_CREDENTIALS_JSON in environment.''), s1)
      | (Inr (Some c), s1) \<Rightarrow>
          (let threads_ref = where_eq ''uid'' (Str uid) (store s1 ''conversations'');
               threads = order_by ''createdAt'' DESCENDING threads_ref;
               s2 = log (StoreQuery ''conversations'') s1
           in (Inr (to_dicts threads), s2)))"

definition store_message :: "world \<Rightarrow> string \<Rightarrow> string \<Rightarrow> string \<Rightarrow> string \<Rightarrow> state \<Rightarrow> (exn + bool) \<times> state" where
  "store_message w uid chat_id user_msg ai_msg s =
     (case get_db w s of
        (Inl e, s1) \<Rightarrow> (Inl e, s1)
      | (Inr None, s1) \<Rightarrow>
          (Inl (HTTPException 503 ''Firestore is not configured. Set GOOGLE_APPLICATION_CREDENTIALS or FIREBASE_CREDENTIALS_JSON in environment.''), s1)
      | (Inr (Some c), s1) \<Rightarrow>
          (case coll_add w ''messages''
                  [''id'' \<mapsto> WStr (utcnow_timestamp_str w),
                   ''conversationId'' \<mapsto> WStr chat_id,
                   ''question'' \<mapsto> WStr user_msg,
                   ''answer'' \<mapsto> WStr ai_msg,
                   ''createdAt'' \<mapsto> SERVER_TIMESTAMP,
                   ''uid'' \<mapsto> WStr uid] s1 of
             (Inl e, s2) \<Rightarrow> (Inl e, s2)
           | (Inr _, s2) \<Rightarrow> (Inr True, s2)))"

definition get_chat_messages :: "world \<Rightarrow> string \<Rightarrow> string \<Rightarrow> state \<Rightarrow> (exn + fields list) \<times> state" where
  "get_chat_messages w uid chat_id s =
     (case get_db w s of
        (Inl e, s1) \<Rightarrow> (Inl e, s1)
      | (Inr None, s1) \<Rightarrow>
          (Inl (HTTPException 503 ''Firestore is not configured. Set GOOGLE_APPLICATION_CREDENTIALS or FIREBASE_CREDENTIALS_JSON in environment.''), s1)
      | (Inr (Some c), s1) \<Rightarrow>
          (let messages_ref = order_by ''createdAt'' ASCENDING
                                (where_eq ''conversationId'' (Str chat_id) (store s1 ''messages''));
               s2 = log (StoreQuery ''messages'') s1
           in (Inr (to_dicts messages_ref), s2)))"

subsection \<open>Sequences of calls, and what a call did outside\<close>

definition is_store_event :: "event \<Rightarrow> bool" where
  "is_store_event e = (case e of StoreWrite _ _ \<Rightarrow> True | StoreQuery _ \<Rightarrow> True | _ \<Rightarrow> False)"

definition store_events :: "state \<Rightarrow> event list" where
  "store_events s = filter is_store_event (trace s)"

definition acquisition_events :: "state \<Rightarrow> event list" where
  "acquisition_events s = filter (\<lambda>e. \<not> is_store_event e) (trace s)"

datatype call =
    GetDb
  | CreateNewChat string string
  | GetChatThreads string
  | StoreMessage string string string string
  | GetChatMessages string string

definition step :: "world \<Rightarrow> call \<Rightarrow> state \<Rightarrow> state" where
  "step w c s =
     (case c of
        GetDb \<Rightarrow> snd (get_db w s)
      | CreateNewChat uid title \<Rightarrow> snd (create_new_chat w uid title s)
      | GetChatThreads uid \<Rightarrow> snd (get_chat_threads w uid s)
      | StoreMessage uid chat_id user_msg ai_msg \<Rightarrow>
          snd (store_message w uid chat_id user_msg ai_msg s)
      | GetChatMessages uid chat_id \<Rightarrow> snd (get_chat_messages w uid chat_id s))"

fun run :: "(world \<times> call) list \<Rightarrow> state \<Rightarrow> state" where
  "run [] s = s"
| "run (x # xs) s = run xs (step (fst x) (snd x) s)"

subsection \<open>Concrete worlds\<close>

text \<open>No variable is set and default-credential discovery finds nothing.\<close>

definition no_credentials :: world where
  "no_credentials =
     \<lparr>getenv = (\<lambda>_. None),
      path_exists = (\<lambda>_. False),
      json_loads = (\<lambda>_. Inl JSONDecodeError),
      from_service_account_info = (\<lambda>_. Inl ValueError),
      new_Client = (\<lambda>cr p. case cr of None \<Rightarrow> Inl DefaultCredentialsError
                                     | Some _ \<Rightarrow> Inr (Client cr p)),
      auto_id_head = CHR ''Z'',
      auto_id_tail = ''k3vQ9'',
      server_time = 100,
      utcnow_timestamp_str = ''1700000000.5''\<rparr>"

text \<open>No variable is set and default-credential discovery succeeds.\<close>

definition default_credentials :: world where
  "default_credentials = no_credentials\<lparr>new_Client := (\<lambda>cr p. Inr (Client cr p))\<rparr>"

text \<open>The blob variable holds text that is not JSON; default credentials would work.\<close>

definition malformed_blob :: world where
  "malformed_blob =
     default_credentials\<lparr>getenv := (\<lambda>_. None)(''FIREBASE_CREDENTIALS_JSON'' \<mapsto> ''{oops'')\<rparr>"

text \<open>
  The blob variable holds a service-account blob with a project identifier; the path
  variable is set as well, and the file exists.
\<close>

definition inline_blob_text :: string where
  "inline_blob_text = ''{\"type\": \"service_account\", \"project_id\": \"demo\"}''"

definition inline_blob :: world where
  "inline_blob =
     no_credentials
       \<lparr>getenv := (\<lambda>_. None)(''FIREBASE_CREDENTIALS_JSON'' \<mapsto> inline_blob_text,
                               ''GOOGLE_APPLICATION_CREDENTIALS'' \<mapsto> ''/etc/key.json''),
        path_exists := (\<lambda>_. True),
        json_loads := (\<lambda>x. if x = inline_blob_text
                             then Inr (JObj [(''type'', JStr ''service_account''),
                                             (''project_id'', JStr ''demo'')])
                             else Inl JSONDecodeError),
        from_service_account_info := (\<lambda>info. Inr (Credentials info))\<rparr>"

text \<open>The same, with a blob whose project identifier is \<open>null\<close>.\<close>

definition null_project_text :: string where
  "null_project_text = ''{\"type\": \"service_account\", \"project_id\": null}''"

definition null_project_blob :: world where
  "null_project_blob =
     inline_blob
       \<lparr>getenv := (\<lambda>_. None)(''FIREBASE_CREDENTIALS_JSON'' \<mapsto> null_project_text),
        json_loads := (\<lambda>x. if x = null_project_text
                             then Inr (JObj [(''type'', JStr ''service_account''),
                                             (''project_id'', JNull)])
                             else Inl JSONDecodeError)\<rparr>"

text \<open>The blob variable is set, to the empty string; default credentials work.\<close>

definition empty_blob :: world where
  "empty_blob =
     default_credentials\<lparr>getenv := (\<lambda>_. None)(''FIREBASE_CREDENTIALS_JSON'' \<mapsto> [])\<rparr>"

text \<open>
  Three writes with default credentials: the store's client generates \<open>A1\<close> and the
  server's clock is at 5; it generates \<open>B2\<close> at the same reading of the clock; it
  generates \<open>B2\<close> at a later one.
\<close>

definition write_A :: world where
  "write_A = default_credentials
     \<lparr>auto_id_head := CHR ''A'', auto_id_tail := ''1'', server_time := 5,
      utcnow_timestamp_str := ''1700000000.25''\<rparr>"

definition write_B_same_time :: world where
  "write_B_same_time = default_credentials
     \<lparr>auto_id_head := CHR ''B'', auto_id_tail := ''2'', server_time := 5,
      utcnow_timestamp_str := ''1700000000.75''\<rparr>"

definition write_B_later :: world where
  "write_B_later = default_credentials
     \<lparr>auto_id_head := CHR ''B'', auto_id_tail := ''2'', server_time := 9,
      utcnow_timestamp_str := ''1700000000.75''\<rparr>"


text \<open>A write at the clock's reading 5 for which the store's client generates \<open>0Z\<close>.\<close>

definition write_0_same_time :: world where
  "write_0_same_time = default_credentials
     \<lparr>auto_id_head := CHR ''0'', auto_id_tail := ''Z'', server_time := 5,
      utcnow_timestamp_str := ''1700000000.75''\<rparr>"


definition two_threads :: state where
  "two_threads =
     snd (create_new_chat write_B_later ''u1'' ''Second''
            (snd (create_new_chat write_A ''u1'' ''First'' init)))"

definition tied_threads :: state where
  "tied_threads =
     snd (create_new_chat write_B_same_time ''u1'' ''Second''
            (snd (create_new_chat write_A ''u1'' ''First'' init)))"

definition two_messages :: state where
  "two_messages =
     snd (store_message write_B_later ''u1'' ''T1'' ''Q2'' ''R2''
            (snd (store_message write_A ''u1'' ''T1'' ''Q1'' ''R1'' init)))"

definition tied_messages :: state where
  "tied_messages =
     snd (store_message write_0_same_time ''u1'' ''T1'' ''Q2'' ''R2''
            (snd (store_message write_A ''u1'' ''T1'' ''Q1'' ''R1'' init)))"

text \<open>Only the path variable is set, and the file is there.\<close>

definition credential_file :: world where
  "credential_file =
     default_credentials
       \<lparr>getenv := (\<lambda>_. None)(''GOOGLE_APPLICATION_CREDENTIALS'' \<mapsto> ''/etc/key.json''),
        path_exists := (\<lambda>p. p = ''/etc/key.json'')\<rparr>"

section \<open>Properties\<close>

subsection \<open>Handle acquisition touches neither the store nor its trace\<close>

lemma default_client_frame:
  "store (snd (default_client w s)) = store s \<and>
   store_events (snd (default_client w s)) = store_events s"
  by (simp add: default_client_def log_def store_events_def is_store_event_def Let_def
      split: sum.splits)

lemma default_client_db: "default_client w s = (Inr c, s') \<Longrightarrow> db s' = Some c"
  by (auto simp add: default_client_def log_def Let_def split: sum.splits)

lemma service_account_client_frame:
  "store (snd (service_account_client w j s)) = store s \<and>
   store_events (snd (service_account_client w j s)) = store_events s"
  by (simp add: service_account_client_def log_def store_events_def is_store_event_def Let_def
      split: sum.splits)

lemma service_account_client_db: "service_account_client w j s = (Inr c, s') \<Longrightarrow> db s' = Some c"
  by (auto simp add: service_account_client_def log_def Let_def split: sum.splits)

lemma try_body_frame:
  "store (snd (try_body w s)) = store s \<and> store_events (snd (try_body w s)) = store_events s"
  using default_client_frame service_account_client_frame
  by (simp add: try_body_def Let_def log_def store_events_def is_store_event_def)

lemma try_body_db: "try_body w s = (Inr c, s') \<Longrightarrow> db s' = Some c"
  by (auto simp add: try_body_def Let_def dest: default_client_db service_account_client_db
      split: if_splits)

lemma get_db_cached: "db s = Some c \<Longrightarrow> get_db w s = (Inr (Some c), s)"
  by (simp add: get_db_def)

lemma get_db_shape: "\<exists>r. fst (get_db w s) = Inr r \<and> db (snd (get_db w s)) = r"
  by (auto simp add: get_db_def dest: try_body_db split: option.splits prod.splits sum.splits)

lemma get_db_frame:
  "store (snd (get_db w s)) = store s \<and> store_events (snd (get_db w s)) = store_events s"
  using try_body_frame[of w s]
  by (auto simp add: get_db_def store_events_def split: option.splits prod.splits sum.splits)

lemma get_db_None_iff:
  "fst (get_db w s) = Inr None \<longleftrightarrow> db s = None \<and> (\<exists>e. fst (try_body w s) = Inl e)"
  by (auto simp add: get_db_def split: option.splits prod.splits sum.splits)

lemma get_db_no_credentials:
  "get_db no_credentials init =
     (Inr None,
      \<lparr>db = None, store = (\<lambda>_. []),
       trace = [Getenv ''FIREBASE_CREDENTIALS_JSON'', Getenv ''GOOGLE_APPLICATION_CREDENTIALS'',
                NewClient None None]\<rparr>)"
  by (simp add: auto_id_def get_db_def try_body_def default_client_def no_credentials_def init_def log_def
      truthy_def)

subsection \<open>No handle: 503\<close>

text \<open>
  C1. When \<open>get_db\<close> returns \<open>None\<close>, each of the four operations raises
  \<open>HTTPException\<close> with status 503 and one and the same detail text, and it ends in the
  state \<open>get_db\<close> left: the store is what it was, and no read or write of the store was
  made.
\<close>

theorem unavailable_503:
  assumes "fst (get_db w s) = Inr None"
  shows "create_new_chat w uid title s =
           (Inl (HTTPException 503 ''Firestore is not configured. Set GOOGLE_APPLICATION_CREDENTIALS or FIREBASE_CREDENTIALS_JSON in environment.''),
            snd (get_db w s))
       \<and> get_chat_threads w uid s =
           (Inl (HTTPException 503 ''Firestore is not configured. Set GOOGLE_APPLICATION_CREDENTIALS or FIREBASE_CREDENTIALS_JSON in environment.''),
            snd (get_db w s))
       \<and> store_message w uid chat_id user_msg ai_msg s =
           (Inl (HTTPException 503 ''Firestore is not configured. Set GOOGLE_APPLICATION_CREDENTIALS or FIREBASE_CREDENTIALS_JSON in environment.''),
            snd (get_db w s))
       \<and> get_chat_messages w uid chat_id s =
           (Inl (HTTPException 503 ''Firestore is not configured. Set GOOGLE_APPLICATION_CREDENTIALS or FIREBASE_CREDENTIALS_JSON in environment.''),
            snd (get_db w s))
       \<and> store (snd (get_db w s)) = store s
       \<and> store_events (snd (get_db w s)) = store_events s"
proof -
  obtain s1 where g: "get_db w s = (Inr None, s1)"
    using assms by (cases "get_db w s") simp
  have "store s1 = store s" "store_events s1 = store_events s"
    using get_db_frame[of w s] g by simp_all
  then show ?thesis
    using g
    by (simp add: create_new_chat_def get_chat_threads_def store_message_def
        get_chat_messages_def)
qed

theorem unavailable_503_witness:
  "fst (get_db no_credentials init) = Inr None
   \<and> create_new_chat no_credentials ''u1'' ''Hello'' init =
       (Inl (HTTPException 503 ''Firestore is not configured. Set GOOGLE_APPLICATION_CREDENTIALS or FIREBASE_CREDENTIALS_JSON in environment.''),
        snd (get_db no_credentials init))
   \<and> get_chat_messages no_credentials ''u1'' ''c1'' init =
       (Inl (HTTPException 503 ''Firestore is not configured. Set GOOGLE_APPLICATION_CREDENTIALS or FIREBASE_CREDENTIALS_JSON in environment.''),
        snd (get_db no_credentials init))
   \<and> store (snd (get_db no_credentials init)) ''conversations'' = []
   \<and> store_events (snd (get_db no_credentials init)) = []"
proof -
  have h: "fst (get_db no_credentials init) = Inr None"
    by (simp add: get_db_no_credentials)
  have "store init ''conversations'' = []" "store_events init = []"
    by (simp_all add: init_def store_events_def)
  then show ?thesis
    using h unavailable_503 [OF h, of "''u1''" "''Hello''" "''c1''"] by simp
qed

subsection \<open>Acquisition never raises\<close>

text \<open>
  C2. \<open>get_db\<close> returns for every world and every state, and what it returns is never an
  exception: it is the handle it leaves in \<open>db\<close>. That handle is \<open>None\<close> exactly when
  none was cached and the \<open>try\<close> block raised, whatever it raised and wherever (parsing
  the blob, building the credentials, reading the project, constructing the client).
\<close>

theorem get_db_never_raises:
  "\<exists>r. fst (get_db w s) = Inr r \<and> db (snd (get_db w s)) = r
       \<and> (r = None \<longleftrightarrow> db s = None \<and> (\<exists>e. fst (try_body w s) = Inl e))"
  using get_db_shape[of w s] get_db_None_iff[of w s] by auto

theorem get_db_never_raises_witness:
  "fst (try_body malformed_blob init) = Inl JSONDecodeError
   \<and> fst (get_db malformed_blob init) = Inr None
   \<and> db (snd (get_db malformed_blob init)) = None"
proof -
  have t: "fst (try_body malformed_blob init) = Inl JSONDecodeError"
    by (simp add: auto_id_def try_body_def service_account_client_def malformed_blob_def
        default_credentials_def no_credentials_def init_def log_def truthy_def)
  have "db init = None"
    by (simp add: init_def)
  then show ?thesis
    using t get_db_never_raises [of malformed_blob init] by auto
qed

subsection \<open>The handle is cached, a failure is not\<close>

lemma acquisition_events_log_store:
  "is_store_event e \<Longrightarrow> acquisition_events (log e s) = acquisition_events s"
  by (simp add: acquisition_events_def log_def)

lemma db_log [simp]: "db (log e s) = db s"
  by (simp add: log_def)

lemma create_new_chat_keeps_handle:
  assumes "db s = Some c"
  shows "db (snd (create_new_chat w uid title s)) = Some c
       \<and> acquisition_events (snd (create_new_chat w uid title s)) = acquisition_events s"
  using assms
  by (simp add: create_new_chat_def get_db_cached doc_set_def Let_def acquisition_events_def
      log_def is_store_event_def)

lemma get_chat_threads_keeps_handle:
  assumes "db s = Some c"
  shows "db (snd (get_chat_threads w uid s)) = Some c
       \<and> acquisition_events (snd (get_chat_threads w uid s)) = acquisition_events s"
  using assms
  by (simp add: get_chat_threads_def get_db_cached Let_def acquisition_events_def
      log_def is_store_event_def)

lemma store_message_keeps_handle:
  assumes "db s = Some c"
  shows "db (snd (store_message w uid chat_id user_msg ai_msg s)) = Some c
       \<and> acquisition_events (snd (store_message w uid chat_id user_msg ai_msg s)) = acquisition_events s"
  using assms
  by (simp add: store_message_def get_db_cached coll_add_def Let_def acquisition_events_def
      log_def is_store_event_def)

lemma get_chat_messages_keeps_handle:
  assumes "db s = Some c"
  shows "db (snd (get_chat_messages w uid chat_id s)) = Some c
       \<and> acquisition_events (snd (get_chat_messages w uid chat_id s)) = acquisition_events s"
  using assms
  by (simp add: get_chat_messages_def get_db_cached Let_def acquisition_events_def
      log_def is_store_event_def)

lemma step_keeps_handle:
  assumes "db s = Some c"
  shows "db (step w k s) = Some c \<and> acquisition_events (step w k s) = acquisition_events s"
proof (cases k)
  case GetDb
  then show ?thesis using assms by (simp add: step_def get_db_cached)
next
  case (CreateNewChat uid title)
  then show ?thesis using create_new_chat_keeps_handle[OF assms] by (simp add: step_def)
next
  case (GetChatThreads uid)
  then show ?thesis using get_chat_threads_keeps_handle[OF assms] by (simp add: step_def)
next
  case (StoreMessage uid chat_id user_msg ai_msg)
  then show ?thesis using store_message_keeps_handle[OF assms] by (simp add: step_def)
next
  case (GetChatMessages uid chat_id)
  then show ?thesis using get_chat_messages_keeps_handle[OF assms] by (simp add: step_def)
qed

lemma run_keeps_handle:
  "db s = Some c \<Longrightarrow> db (run ks s) = Some c \<and> acquisition_events (run ks s) = acquisition_events s"
proof (induction ks arbitrary: s)
  case Nil
  then show ?case by simp
next
  case (Cons k ks)
  have "db (step (fst k) (snd k) s) = Some c"
    and "acquisition_events (step (fst k) (snd k) s) = acquisition_events s"
    using step_keeps_handle[OF Cons.prems] by simp_all
  then show ?case using Cons.IH by simp
qed

lemma acquisition_events_default_client:
  "acquisition_events (snd (default_client w s)) = acquisition_events s @ [NewClient None None]"
  by (simp add: default_client_def log_def acquisition_events_def is_store_event_def Let_def
      split: sum.splits)

lemma try_body_attempts:
  "\<exists>es. acquisition_events (snd (try_body w s)) =
     acquisition_events s @ Getenv ''FIREBASE_CREDENTIALS_JSON'' # Getenv ''GOOGLE_APPLICATION_CREDENTIALS'' # es"
  by (simp add: try_body_def service_account_client_def default_client_def log_def acquisition_events_def is_store_event_def Let_def
      split: sum.splits)

lemma get_db_retry:
  assumes "db s = None"
  shows "fst (get_db w s) = (case fst (try_body w s) of Inr c \<Rightarrow> Inr (Some c) | Inl e \<Rightarrow> Inr None)
    \<and> (\<exists>es. acquisition_events (snd (get_db w s)) =
     acquisition_events s @ Getenv ''FIREBASE_CREDENTIALS_JSON'' # Getenv ''GOOGLE_APPLICATION_CREDENTIALS'' # es)"
  using assms try_body_attempts[of w s]
  by (auto simp add: get_db_def acquisition_events_def split: prod.splits sum.splits)

text \<open>
  C3, as amended. Once \<open>db\<close> holds a handle, every sequence of calls (of \<open>get_db\<close> and
  of the four operations, in any worlds) leaves that handle in \<open>db\<close> and adds no
  acquisition step to the trace, and \<open>get_db\<close> returns the handle without changing the
  state. A failed acquisition is not cached: it leaves \<open>db\<close> at \<open>None\<close>, so the next
  \<open>get_db\<close> runs the \<open>try\<close> block again, reading both variables again, and returns
  what that run gives in the world of that later call.
\<close>

theorem handle_cached_failure_retried:
  "(db s = Some c \<longrightarrow>
      db (run ks s) = Some c \<and> acquisition_events (run ks s) = acquisition_events s
      \<and> get_db w (run ks s) = (Inr (Some c), run ks s))
   \<and> (fst (get_db w s) = Inr None \<longrightarrow>
      fst (get_db w' (snd (get_db w s))) =
        (case fst (try_body w' (snd (get_db w s))) of Inr c' \<Rightarrow> Inr (Some c') | Inl e \<Rightarrow> Inr None)
      \<and> (\<exists>es. acquisition_events (snd (get_db w' (snd (get_db w s)))) =
            acquisition_events (snd (get_db w s))
              @ Getenv ''FIREBASE_CREDENTIALS_JSON'' # Getenv ''GOOGLE_APPLICATION_CREDENTIALS'' # es))"
proof (intro conjI impI)
  assume a: "db s = Some c"
  show "db (run ks s) = Some c" "acquisition_events (run ks s) = acquisition_events s"
    using run_keeps_handle[OF a] by simp_all
  then show "get_db w (run ks s) = (Inr (Some c), run ks s)"
    by (simp add: get_db_cached)
next
  assume "fst (get_db w s) = Inr None"
  then have n: "db (snd (get_db w s)) = None"
    using get_db_shape[of w s] by auto
  show "fst (get_db w' (snd (get_db w s))) =
        (case fst (try_body w' (snd (get_db w s))) of Inr c' \<Rightarrow> Inr (Some c') | Inl e \<Rightarrow> Inr None)"
    using get_db_retry[OF n] by simp
  show "\<exists>es. acquisition_events (snd (get_db w' (snd (get_db w s)))) =
            acquisition_events (snd (get_db w s))
              @ Getenv ''FIREBASE_CREDENTIALS_JSON'' # Getenv ''GOOGLE_APPLICATION_CREDENTIALS'' # es"
    using get_db_retry[OF n] by simp
qed

lemma get_db_default_credentials_after_failure:
  "get_db default_credentials (snd (get_db no_credentials init)) =
     (Inr (Some (Client None None)),
      \<lparr>db = Some (Client None None), store = (\<lambda>_. []),
       trace = [Getenv ''FIREBASE_CREDENTIALS_JSON'', Getenv ''GOOGLE_APPLICATION_CREDENTIALS'',
                NewClient None None,
                Getenv ''FIREBASE_CREDENTIALS_JSON'', Getenv ''GOOGLE_APPLICATION_CREDENTIALS'',
                NewClient None None]\<rparr>)"
  by (simp add: get_db_no_credentials)
     (simp add: auto_id_def get_db_def try_body_def default_client_def default_credentials_def
      no_credentials_def log_def truthy_def)

text \<open>
  The claim as it stands fails: after a failed acquisition (no credentials), a second
  \<open>get_db\<close>, made when default credentials have become available, attempts acquisition
  again (three more acquisition steps in the trace) and returns a handle.
\<close>

theorem failed_acquisition_retried_counterexample:
  "fst (get_db no_credentials init) = Inr None
   \<and> fst (get_db default_credentials (snd (get_db no_credentials init))) = Inr (Some (Client None None))
   \<and> acquisition_events (snd (get_db no_credentials init)) =
       [Getenv ''FIREBASE_CREDENTIALS_JSON'', Getenv ''GOOGLE_APPLICATION_CREDENTIALS'',
        NewClient None None]
   \<and> acquisition_events (snd (get_db default_credentials (snd (get_db no_credentials init)))) =
       [Getenv ''FIREBASE_CREDENTIALS_JSON'', Getenv ''GOOGLE_APPLICATION_CREDENTIALS'',
        NewClient None None,
        Getenv ''FIREBASE_CREDENTIALS_JSON'', Getenv ''GOOGLE_APPLICATION_CREDENTIALS'',
        NewClient None None]"
  by (simp add: get_db_default_credentials_after_failure)
     (simp add: get_db_no_credentials acquisition_events_def is_store_event_def)

theorem handle_cached_failure_retried_witness:
  "db (snd (get_db default_credentials init)) = Some (Client None None)
   \<and> get_db no_credentials
       (run [(no_credentials, CreateNewChat ''u1'' ''Hello''), (no_credentials, GetChatThreads ''u1'')]
          (snd (get_db default_credentials init))) =
     (Inr (Some (Client None None)),
      run [(no_credentials, CreateNewChat ''u1'' ''Hello''), (no_credentials, GetChatThreads ''u1'')]
          (snd (get_db default_credentials init)))
   \<and> fst (get_db no_credentials init) = Inr None
   \<and> fst (get_db default_credentials (snd (get_db no_credentials init))) = Inr (Some (Client None None))"
proof -
  have a: "db (snd (get_db default_credentials init)) = Some (Client None None)"
    by (simp add: auto_id_def get_db_def try_body_def default_client_def default_credentials_def
      no_credentials_def log_def truthy_def init_def)
  have b: "fst (get_db no_credentials init) = Inr None"
    by (simp add: get_db_no_credentials)
  have c: "fst (get_db default_credentials (snd (get_db no_credentials init))) = Inr (Some (Client None None))"
    by (simp add: get_db_default_credentials_after_failure)
  show ?thesis
    using a b c
      handle_cached_failure_retried [of "snd (get_db default_credentials init)" "Client None None"
        "[(no_credentials, CreateNewChat ''u1'' ''Hello''), (no_credentials, GetChatThreads ''u1'')]"
        no_credentials no_credentials]
      handle_cached_failure_retried [of init "Client None None" "[]" no_credentials default_credentials]
    by simp
qed

subsection \<open>Which credentials are used\<close>

lemma dict_get_object:
  "dict_get (JObj kvs) k = Inr (case map_of kvs k of Some JNull \<Rightarrow> None | r \<Rightarrow> r)"
  by (simp add: dict_get_def)

lemma get_db_blob:
  assumes "db s = None" and "getenv w ''FIREBASE_CREDENTIALS_JSON'' = Some j" and "j \<noteq> []"
  shows "fst (get_db w s) =
           (case json_loads w j of
              Inl e \<Rightarrow> Inr None
            | Inr info \<Rightarrow>
                (case from_service_account_info w info of
                   Inl e \<Rightarrow> Inr None
                 | Inr cr \<Rightarrow>
                     (case dict_get info ''project_id'' of
                        Inl e \<Rightarrow> Inr None
                      | Inr project \<Rightarrow>
                          (case new_Client w (Some cr) project of
                             Inl e \<Rightarrow> Inr None
                           | Inr c \<Rightarrow> Inr (Some c)))))"
    and "\<exists>es. trace (snd (get_db w s)) =
            trace s @ [Getenv ''FIREBASE_CREDENTIALS_JSON'', Getenv ''GOOGLE_APPLICATION_CREDENTIALS'',
                       JsonLoads j] @ es
          \<and> (\<forall>e\<in>set es. (\<exists>info. e = FromServiceAccountInfo info) \<or> (\<exists>cr p. e = NewClient (Some cr) p))"
  using assms
  by (auto simp add: get_db_def try_body_def service_account_client_def truthy_def log_def Let_def
      split: sum.splits)

lemma get_db_blob_success:
  assumes "db s = None" and "getenv w ''FIREBASE_CREDENTIALS_JSON'' = Some j" and "j \<noteq> []"
    and "json_loads w j = Inr (JObj kvs)"
    and "from_service_account_info w (JObj kvs) = Inr cr"
    and "new_Client w (Some cr) (case map_of kvs ''project_id'' of Some JNull \<Rightarrow> None | r \<Rightarrow> r)
           = Inr c"
  shows "get_db w s =
           (Inr (Some c),
            s\<lparr>db := Some c,
              trace := trace s @ [Getenv ''FIREBASE_CREDENTIALS_JSON'',
                                  Getenv ''GOOGLE_APPLICATION_CREDENTIALS'',
                                  JsonLoads j, FromServiceAccountInfo (JObj kvs),
                                  NewClient (Some cr)
                                    (case map_of kvs ''project_id'' of Some JNull \<Rightarrow> None
                                                                      | r \<Rightarrow> r)]\<rparr>)"
  using assms
  by (simp add: get_db_def try_body_def service_account_client_def truthy_def log_def Let_def
      dict_get_object)

lemma get_db_blob_ignores_path:
  assumes "getenv w ''FIREBASE_CREDENTIALS_JSON'' = Some j" and "j \<noteq> []"
  shows "get_db (w\<lparr>getenv := (getenv w)(''GOOGLE_APPLICATION_CREDENTIALS'' := v), path_exists := pe\<rparr>) s
         = get_db w s"
proof -
  have "service_account_client (w\<lparr>getenv := g, path_exists := pe\<rparr>) j t
        = service_account_client w j t" for g t
    by (simp add: service_account_client_def Let_def split: sum.splits)
  then have t: "try_body (w\<lparr>getenv := (getenv w)(''GOOGLE_APPLICATION_CREDENTIALS'' := v),
                        path_exists := pe\<rparr>) s = try_body w s"
    using assms by (simp add: try_body_def truthy_def Let_def)
  show ?thesis
    unfolding get_db_def t by (rule refl)
qed

lemma get_db_no_blob:
  assumes "db s = None" and "\<not> truthy (getenv w ''FIREBASE_CREDENTIALS_JSON'')"
  shows "fst (get_db w s) = (case new_Client w None None of Inl e \<Rightarrow> Inr None | Inr c \<Rightarrow> Inr (Some c))"
    and "trace (snd (get_db w s)) =
           trace s @ [Getenv ''FIREBASE_CREDENTIALS_JSON'', Getenv ''GOOGLE_APPLICATION_CREDENTIALS'']
             @ (case getenv w ''GOOGLE_APPLICATION_CREDENTIALS'' of
                  None \<Rightarrow> [] | Some p \<Rightarrow> if p = [] then [] else [PathExists p])
             @ [NewClient None None]"
  using assms
  by (auto simp add: get_db_def try_body_def default_client_def truthy_def log_def Let_def
      split: sum.splits option.splits)

text \<open>
  C4. With no handle cached, the precedence is as follows. When the blob variable is set
  and holds a blob (a non-empty string: the source's test is \<open>if firebase_json:\<close>),
  \<open>get_db\<close> parses it, builds the credentials from the parsed value, reads \<open>project_id\<close>
  from it (\<open>None\<close> when the field is missing or null) and constructs the client from
  both; the outside calls of \<open>get_db\<close> are these and no others (the path variable is read,
  the file is never looked for, default discovery is never tried), and with the same
  answers of the library calls the outcome is the same whatever the path variable and the
  file system hold. Otherwise the client is the one \<open>firestore.Client()\<close> gives, by
  default discovery, after a look for the file when the path variable is set and not
  empty; the call is the same whether the file exists or not.
\<close>

theorem acquisition_precedence:
  assumes "db s = None"
  shows "(getenv w ''FIREBASE_CREDENTIALS_JSON'' = Some j \<and> j \<noteq> [] \<longrightarrow>
            fst (get_db w s) =
              (case json_loads w j of
                 Inl e \<Rightarrow> Inr None
               | Inr info \<Rightarrow>
                   (case from_service_account_info w info of
                      Inl e \<Rightarrow> Inr None
                    | Inr cr \<Rightarrow>
                        (case dict_get info ''project_id'' of
                           Inl e \<Rightarrow> Inr None
                         | Inr project \<Rightarrow>
                             (case new_Client w (Some cr) project of
                                Inl e \<Rightarrow> Inr None
                              | Inr c \<Rightarrow> Inr (Some c)))))
          \<and> (\<exists>es. trace (snd (get_db w s)) =
                 trace s @ [Getenv ''FIREBASE_CREDENTIALS_JSON'',
                            Getenv ''GOOGLE_APPLICATION_CREDENTIALS'', JsonLoads j] @ es
               \<and> (\<forall>e\<in>set es. (\<exists>info. e = FromServiceAccountInfo info)
                              \<or> (\<exists>cr p. e = NewClient (Some cr) p)))
          \<and> (\<forall>v pe. get_db (w\<lparr>getenv := (getenv w)(''GOOGLE_APPLICATION_CREDENTIALS'' := v),
                                path_exists := pe\<rparr>) s = get_db w s)
          \<and> (\<forall>kvs cr c.
                json_loads w j = Inr (JObj kvs)
                \<and> from_service_account_info w (JObj kvs) = Inr cr
                \<and> new_Client w (Some cr)
                     (case map_of kvs ''project_id'' of Some JNull \<Rightarrow> None | r \<Rightarrow> r) = Inr c \<longrightarrow>
                get_db w s =
                  (Inr (Some c),
                   s\<lparr>db := Some c,
                     trace := trace s @ [Getenv ''FIREBASE_CREDENTIALS_JSON'',
                                         Getenv ''GOOGLE_APPLICATION_CREDENTIALS'',
                                         JsonLoads j, FromServiceAccountInfo (JObj kvs),
                                         NewClient (Some cr)
                                           (case map_of kvs ''project_id'' of
                                              Some JNull \<Rightarrow> None | r \<Rightarrow> r)]\<rparr>)))
       \<and> (\<not> truthy (getenv w ''FIREBASE_CREDENTIALS_JSON'') \<longrightarrow>
            fst (get_db w s) =
              (case new_Client w None None of Inl e \<Rightarrow> Inr None | Inr c \<Rightarrow> Inr (Some c))
          \<and> trace (snd (get_db w s)) =
              trace s @ [Getenv ''FIREBASE_CREDENTIALS_JSON'', Getenv ''GOOGLE_APPLICATION_CREDENTIALS'']
                @ (case getenv w ''GOOGLE_APPLICATION_CREDENTIALS'' of
                     None \<Rightarrow> [] | Some p \<Rightarrow> if p = [] then [] else [PathExists p])
                @ [NewClient None None])"
proof (intro conjI impI allI)
  assume b: "getenv w ''FIREBASE_CREDENTIALS_JSON'' = Some j \<and> j \<noteq> []"
  then have b1: "getenv w ''FIREBASE_CREDENTIALS_JSON'' = Some j" and b2: "j \<noteq> []"
    by simp_all
  show "fst (get_db w s) =
              (case json_loads w j of
                 Inl e \<Rightarrow> Inr None
               | Inr info \<Rightarrow>
                   (case from_service_account_info w info of
                      Inl e \<Rightarrow> Inr None
                    | Inr cr \<Rightarrow>
                        (case dict_get info ''project_id'' of
                           Inl e \<Rightarrow> Inr None
                         | Inr project \<Rightarrow>
                             (case new_Client w (Some cr) project of
                                Inl e \<Rightarrow> Inr None
                              | Inr c \<Rightarrow> Inr (Some c)))))"
    by (rule get_db_blob(1)[OF assms b1 b2])
  show "\<exists>es. trace (snd (get_db w s)) =
                 trace s @ [Getenv ''FIREBASE_CREDENTIALS_JSON'',
                            Getenv ''GOOGLE_APPLICATION_CREDENTIALS'', JsonLoads j] @ es
               \<and> (\<forall>e\<in>set es. (\<exists>info. e = FromServiceAccountInfo info)
                              \<or> (\<exists>cr p. e = NewClient (Some cr) p))"
    by (rule get_db_blob(2)[OF assms b1 b2])
  show "get_db (w\<lparr>getenv := (getenv w)(''GOOGLE_APPLICATION_CREDENTIALS'' := v),
                                path_exists := pe\<rparr>) s = get_db w s" for v pe
    by (rule get_db_blob_ignores_path[OF b1 b2])
  show "get_db w s =
                  (Inr (Some c),
                   s\<lparr>db := Some c,
                     trace := trace s @ [Getenv ''FIREBASE_CREDENTIALS_JSON'',
                                         Getenv ''GOOGLE_APPLICATION_CREDENTIALS'',
                                         JsonLoads j, FromServiceAccountInfo (JObj kvs),
                                         NewClient (Some cr)
                                           (case map_of kvs ''project_id'' of
                                              Some JNull \<Rightarrow> None | r \<Rightarrow> r)]\<rparr>)"
    if "json_loads w j = Inr (JObj kvs)
                \<and> from_service_account_info w (JObj kvs) = Inr cr
                \<and> new_Client w (Some cr)
                     (case map_of kvs ''project_id'' of Some JNull \<Rightarrow> None | r \<Rightarrow> r) = Inr c"
    for kvs cr c
    using that get_db_blob_success[OF assms b1 b2, of kvs cr c] by simp
next
  assume n: "\<not> truthy (getenv w ''FIREBASE_CREDENTIALS_JSON'')"
  show "fst (get_db w s) =
              (case new_Client w None None of Inl e \<Rightarrow> Inr None | Inr c \<Rightarrow> Inr (Some c))"
    by (rule get_db_no_blob(1)[OF assms n])
  show "trace (snd (get_db w s)) =
              trace s @ [Getenv ''FIREBASE_CREDENTIALS_JSON'', Getenv ''GOOGLE_APPLICATION_CREDENTIALS'']
                @ (case getenv w ''GOOGLE_APPLICATION_CREDENTIALS'' of
                     None \<Rightarrow> [] | Some p \<Rightarrow> if p = [] then [] else [PathExists p])
                @ [NewClient None None]"
    by (rule get_db_no_blob(2)[OF assms n])
qed

theorem acquisition_precedence_witness:
  "db init = None
   \<and> getenv inline_blob ''FIREBASE_CREDENTIALS_JSON'' = Some inline_blob_text
   \<and> inline_blob_text \<noteq> []
   \<and> getenv inline_blob ''GOOGLE_APPLICATION_CREDENTIALS'' = Some ''/etc/key.json''
   \<and> path_exists inline_blob ''/etc/key.json''
   \<and> get_db inline_blob init =
       (Inr (Some (Client (Some (Credentials (JObj [(''type'', JStr ''service_account''),
                                                      (''project_id'', JStr ''demo'')])))
                          (Some (JStr ''demo'')))),
        init\<lparr>db := Some (Client (Some (Credentials (JObj [(''type'', JStr ''service_account''),
                                                          (''project_id'', JStr ''demo'')])))
                                (Some (JStr ''demo''))),
             trace := [Getenv ''FIREBASE_CREDENTIALS_JSON'', Getenv ''GOOGLE_APPLICATION_CREDENTIALS'',
                       JsonLoads inline_blob_text,
                       FromServiceAccountInfo (JObj [(''type'', JStr ''service_account''),
                                                     (''project_id'', JStr ''demo'')]),
                       NewClient (Some (Credentials (JObj [(''type'', JStr ''service_account''),
                                                           (''project_id'', JStr ''demo'')])))
                                 (Some (JStr ''demo''))]\<rparr>)
   \<and> trace (snd (get_db null_project_blob init)) =
       [Getenv ''FIREBASE_CREDENTIALS_JSON'', Getenv ''GOOGLE_APPLICATION_CREDENTIALS'',
        JsonLoads null_project_text,
        FromServiceAccountInfo (JObj [(''type'', JStr ''service_account''),
                                      (''project_id'', JNull)]),
        NewClient (Some (Credentials (JObj [(''type'', JStr ''service_account''),
                                            (''project_id'', JNull)])))
                  None]
   \<and> \<not> truthy (getenv credential_file ''FIREBASE_CREDENTIALS_JSON'')
   \<and> fst (get_db credential_file init) = Inr (Some (Client None None))
   \<and> trace (snd (get_db credential_file init)) =
       [Getenv ''FIREBASE_CREDENTIALS_JSON'', Getenv ''GOOGLE_APPLICATION_CREDENTIALS'',
        PathExists ''/etc/key.json'', NewClient None None]
   \<and> \<not> truthy (getenv empty_blob ''FIREBASE_CREDENTIALS_JSON'')
   \<and> fst (get_db empty_blob init) = Inr (Some (Client None None))
   \<and> trace (snd (get_db empty_blob init)) =
       [Getenv ''FIREBASE_CREDENTIALS_JSON'', Getenv ''GOOGLE_APPLICATION_CREDENTIALS'',
        NewClient None None]"
proof -
  let ?info = "JObj [(''type'', JStr ''service_account''), (''project_id'', JStr ''demo'')]"
  let ?null = "JObj [(''type'', JStr ''service_account''), (''project_id'', JNull)]"
  have d: "db init = None" "trace init = []"
    by (simp_all add: init_def)
  have t: "inline_blob_text \<noteq> []" "null_project_text \<noteq> []"
    by (simp_all add: inline_blob_text_def null_project_text_def)
  have b: "getenv inline_blob ''FIREBASE_CREDENTIALS_JSON'' = Some inline_blob_text"
      "getenv inline_blob ''GOOGLE_APPLICATION_CREDENTIALS'' = Some ''/etc/key.json''"
      "path_exists inline_blob ''/etc/key.json''"
      "json_loads inline_blob inline_blob_text = Inr ?info"
      "from_service_account_info inline_blob ?info = Inr (Credentials ?info)"
      "new_Client inline_blob (Some (Credentials ?info)) (Some (JStr ''demo'')) =
         Inr (Client (Some (Credentials ?info)) (Some (JStr ''demo'')))"
    by (simp_all add: inline_blob_def no_credentials_def)
  have n: "getenv null_project_blob ''FIREBASE_CREDENTIALS_JSON'' = Some null_project_text"
      "json_loads null_project_blob null_project_text = Inr ?null"
      "from_service_account_info null_project_blob ?null = Inr (Credentials ?null)"
      "new_Client null_project_blob (Some (Credentials ?null)) None =
         Inr (Client (Some (Credentials ?null)) None)"
    by (simp_all add: null_project_blob_def inline_blob_def no_credentials_def)
  have f: "\<not> truthy (getenv credential_file ''FIREBASE_CREDENTIALS_JSON'')"
      "getenv credential_file ''GOOGLE_APPLICATION_CREDENTIALS'' = Some ''/etc/key.json''"
      "new_Client credential_file None None = Inr (Client None None)"
    by (simp_all add: credential_file_def default_credentials_def no_credentials_def truthy_def)
  have e: "\<not> truthy (getenv empty_blob ''FIREBASE_CREDENTIALS_JSON'')"
      "getenv empty_blob ''GOOGLE_APPLICATION_CREDENTIALS'' = None"
      "new_Client empty_blob None None = Inr (Client None None)"
    by (simp_all add: empty_blob_def default_credentials_def no_credentials_def truthy_def)
  show ?thesis
    using d t b n f e
      acquisition_precedence [OF d(1), of inline_blob inline_blob_text]
      acquisition_precedence [OF d(1), of null_project_blob null_project_text]
      acquisition_precedence [OF d(1), of credential_file "[]"]
      acquisition_precedence [OF d(1), of empty_blob "[]"]
    by simp
qed

subsection \<open>The store calls of the operations\<close>

lemma resolve_thread:
  "resolve t [''id'' \<mapsto> WStr a, ''title'' \<mapsto> WStr b, ''createdAt'' \<mapsto> SERVER_TIMESTAMP,
              ''uid'' \<mapsto> WStr u] =
   [''id'' \<mapsto> Str a, ''title'' \<mapsto> Str b, ''createdAt'' \<mapsto> Timestamp t, ''uid'' \<mapsto> Str u]"
  by (rule ext) (simp add: resolve_def)

lemma resolve_message:
  "resolve t [''id'' \<mapsto> WStr i, ''conversationId'' \<mapsto> WStr k, ''question'' \<mapsto> WStr q,
              ''answer'' \<mapsto> WStr a, ''createdAt'' \<mapsto> SERVER_TIMESTAMP, ''uid'' \<mapsto> WStr u] =
   [''id'' \<mapsto> Str i, ''conversationId'' \<mapsto> Str k, ''question'' \<mapsto> Str q,
    ''answer'' \<mapsto> Str a, ''createdAt'' \<mapsto> Timestamp t, ''uid'' \<mapsto> Str u]"
  by (rule ext) (simp add: resolve_def)

lemma upsert_fresh: "i \<notin> set (map fst xs) \<Longrightarrow> upsert i d xs = xs @ [(i, d)]"
  by (induction xs) auto

lemma get_db_available:
  assumes "fst (get_db w s) = Inr (Some c)"
  shows "get_db w s = (Inr (Some c), snd (get_db w s))"
    and "db (snd (get_db w s)) = Some c"
    and "store (snd (get_db w s)) = store s"
    and "store_events (snd (get_db w s)) = store_events s"
  using assms get_db_shape[of w s] get_db_frame[of w s]
  by (auto simp add: prod_eq_iff)

lemma store_events_log:
  "store_events (log e s) = store_events s @ (if is_store_event e then [e] else [])"
  by (simp add: store_events_def log_def)


lemma get_chat_threads_available:
  assumes "fst (get_db w s) = Inr (Some c)"
  shows "get_chat_threads w uid s =
           (Inr (to_dicts (order_by ''createdAt'' DESCENDING
                   (where_eq ''uid'' (Str uid) (store s ''conversations'')))),
            log (StoreQuery ''conversations'') (snd (get_db w s)))"
proof -
  obtain s1 where g: "get_db w s = (Inr (Some c), s1)"
    using assms by (cases "get_db w s") simp
  then have "store s1 = store s"
    using get_db_frame[of w s] by simp
  then show ?thesis
    by (simp add: get_chat_threads_def g Let_def)
qed

lemma get_chat_messages_available:
  assumes "fst (get_db w s) = Inr (Some c)"
  shows "get_chat_messages w uid chat_id s =
           (Inr (to_dicts (order_by ''createdAt'' ASCENDING
                   (where_eq ''conversationId'' (Str chat_id) (store s ''messages'')))),
            log (StoreQuery ''messages'') (snd (get_db w s)))"
proof -
  obtain s1 where g: "get_db w s = (Inr (Some c), s1)"
    using assms by (cases "get_db w s") simp
  then have "store s1 = store s"
    using get_db_frame[of w s] by simp
  then show ?thesis
    by (simp add: get_chat_messages_def g Let_def)
qed

lemma store_message_available:
  assumes "fst (get_db w s) = Inr (Some c)"
    and "auto_id w \<notin> set (map fst (store s ''messages''))"
  shows "store_message w uid chat_id user_msg ai_msg s =
           (Inr True,
            (log (StoreWrite ''messages'' (auto_id w)) (snd (get_db w s)))
              \<lparr>store := (store s)(''messages'' := store s ''messages'' @
                 [(auto_id w,
                   [''id'' \<mapsto> Str (utcnow_timestamp_str w), ''conversationId'' \<mapsto> Str chat_id,
                    ''question'' \<mapsto> Str user_msg, ''answer'' \<mapsto> Str ai_msg,
                    ''createdAt'' \<mapsto> Timestamp (server_time w), ''uid'' \<mapsto> Str uid])])\<rparr>)"
proof -
  obtain s1 where g: "get_db w s = (Inr (Some c), s1)"
    using assms by (cases "get_db w s") simp
  then have "store s1 = store s"
    using get_db_frame[of w s] by simp
  then show ?thesis
    using assms(2)
    by (simp add: store_message_def coll_add_def g Let_def resolve_message log_def)
qed

lemma set_query:
  "set (to_dicts (order_by f dir (where_eq g v xs))) =
     snd ` {x \<in> set xs. snd x g = Some v \<and> snd x f \<noteq> None}"
  by (cases dir) (auto simp add: to_dicts_def order_by_def where_eq_def Let_def)

lemma mset_query:
  "mset (to_dicts (order_by f dir (where_eq g v xs))) =
     mset (map snd (filter (\<lambda>x. snd x g = Some v \<and> snd x f \<noteq> None) xs))"
  by (cases dir) (simp_all add: to_dicts_def order_by_def where_eq_def Let_def conj_commute)


lemma doc_set_fresh:
  assumes "i \<notin> set (map fst (store s coll))"
  shows "doc_set w coll i d s =
           (log (StoreWrite coll i) s)
             \<lparr>store := (store s)(coll := store s coll @ [(i, resolve (server_time w) d)])\<rparr>"
  using assms by (simp add: doc_set_def upsert_fresh)

lemma get_db_write_A: "fst (get_db write_A init) = Inr (Some (Client None None))"
  by (simp add: auto_id_def get_db_def try_body_def default_client_def write_A_def default_credentials_def
      no_credentials_def init_def log_def truthy_def)

subsection \<open>Creating a thread\<close>










subsection \<open>Appending a message\<close>

text \<open>
  C8. With a handle available, and the store's client generating an identifier that names
  no document of \<open>messages\<close> yet, \<open>store_message\<close> returns \<open>True\<close> and adds exactly
  one document to \<open>messages\<close>; its fields are \<open>id\<close> (the text of the local clock's
  timestamp), \<open>conversationId\<close> (the thread identifier given), \<open>question\<close>, \<open>answer\<close>,
  \<open>createdAt\<close> (the server's time) and \<open>uid\<close>. No other collection changes, and the
  write is the only store call made.
\<close>

theorem store_message_inserts:
  assumes "fst (get_db w s) = Inr (Some c)"
    and "auto_id w \<notin> set (map fst (store s ''messages''))"
  shows "\<exists>s'. store_message w uid chat_id user_msg ai_msg s = (Inr True, s')
       \<and> store s' ''messages'' =
           store s ''messages'' @
             [(auto_id w,
               [''id'' \<mapsto> Str (utcnow_timestamp_str w), ''conversationId'' \<mapsto> Str chat_id,
                ''question'' \<mapsto> Str user_msg, ''answer'' \<mapsto> Str ai_msg,
                ''createdAt'' \<mapsto> Timestamp (server_time w), ''uid'' \<mapsto> Str uid])]
       \<and> (\<forall>k. k \<noteq> ''messages'' \<longrightarrow> store s' k = store s k)
       \<and> store_events s' = store_events s @ [StoreWrite ''messages'' (auto_id w)]"
proof -
  have "store_events (snd (get_db w s)) = store_events s"
    using get_db_available(4)[OF assms(1)] .
  then show ?thesis
    using store_message_available[OF assms, of uid chat_id user_msg ai_msg]
    by (simp add: store_events_def log_def is_store_event_def)
qed

theorem store_message_inserts_witness:
  "fst (get_db write_A init) = Inr (Some (Client None None))
   \<and> auto_id write_A \<notin> set (map fst (store init ''messages''))
   \<and> fst (store_message write_A ''u1'' ''A1'' ''Hi?'' ''Hello.'' init) = Inr True
   \<and> store (snd (store_message write_A ''u1'' ''A1'' ''Hi?'' ''Hello.'' init)) ''messages'' =
       [(''A1'',
         [''id'' \<mapsto> Str ''1700000000.25'', ''conversationId'' \<mapsto> Str ''A1'',
          ''question'' \<mapsto> Str ''Hi?'', ''answer'' \<mapsto> Str ''Hello.'',
          ''createdAt'' \<mapsto> Timestamp 5, ''uid'' \<mapsto> Str ''u1''])]"
proof -
  have h: "auto_id write_A \<notin> set (map fst (store init ''messages''))"
    by (simp add: init_def)
  have v: "auto_id write_A = ''A1''" "server_time write_A = 5"
    "utcnow_timestamp_str write_A = ''1700000000.25''" "store init ''messages'' = []"
    by (simp_all add: auto_id_def write_A_def init_def)
  from store_message_inserts [OF get_db_write_A h, of "''u1''" "''A1''" "''Hi?''" "''Hello.''"]
  obtain s' where
    r: "store_message write_A ''u1'' ''A1'' ''Hi?'' ''Hello.'' init = (Inr True, s')"
       "store s' ''messages'' =
           store init ''messages'' @
             [(auto_id write_A,
               [''id'' \<mapsto> Str (utcnow_timestamp_str write_A), ''conversationId'' \<mapsto> Str ''A1'',
                ''question'' \<mapsto> Str ''Hi?'', ''answer'' \<mapsto> Str ''Hello.'',
                ''createdAt'' \<mapsto> Timestamp (server_time write_A), ''uid'' \<mapsto> Str ''u1''])]"
    by blast
  show ?thesis
    using get_db_write_A h r v by simp
qed

subsection \<open>No referential integrity\<close>

text \<open>
  C9. \<open>store_message\<close> looks at no thread: whatever \<open>conversations\<close> holds, also when
  no thread has the identifier given, it returns \<open>True\<close>, leaves \<open>conversations\<close> as it
  was and makes no store call but its one write to \<open>messages\<close>; and a later
  \<open>get_chat_messages\<close> for that thread identifier, in any world and for any user, returns
  a list that holds the message.
\<close>

theorem orphan_message_accepted:
  assumes "fst (get_db w s) = Inr (Some c)"
    and "auto_id w \<notin> set (map fst (store s ''messages''))"
  shows "\<exists>s'. store_message w uid chat_id user_msg ai_msg s = (Inr True, s')
       \<and> store s' ''conversations'' = store s ''conversations''
       \<and> store_events s' = store_events s @ [StoreWrite ''messages'' (auto_id w)]
       \<and> (\<forall>w' uid'. \<exists>r. fst (get_chat_messages w' uid' chat_id s') = Inr r
              \<and> [''id'' \<mapsto> Str (utcnow_timestamp_str w), ''conversationId'' \<mapsto> Str chat_id,
                  ''question'' \<mapsto> Str user_msg, ''answer'' \<mapsto> Str ai_msg,
                  ''createdAt'' \<mapsto> Timestamp (server_time w), ''uid'' \<mapsto> Str uid] \<in> set r)"
proof -
  let ?d = "[''id'' \<mapsto> Str (utcnow_timestamp_str w), ''conversationId'' \<mapsto> Str chat_id,
             ''question'' \<mapsto> Str user_msg, ''answer'' \<mapsto> Str ai_msg,
             ''createdAt'' \<mapsto> Timestamp (server_time w), ''uid'' \<mapsto> Str uid]"
  let ?s1 = "snd (get_db w s)"
  let ?s' = "(log (StoreWrite ''messages'' (auto_id w)) ?s1)
               \<lparr>store := (store s)(''messages'' := store s ''messages'' @ [(auto_id w, ?d)])\<rparr>"
  have s1: "db ?s1 = Some c" "store_events ?s1 = store_events s"
    using get_db_available[OF assms(1)] by simp_all
  have run: "store_message w uid chat_id user_msg ai_msg s = (Inr True, ?s')"
    using store_message_available[OF assms] .
  have ev: "store_events ?s' = store_events s @ [StoreWrite ''messages'' (auto_id w)]"
    using s1(2) by (simp add: store_events_def log_def is_store_event_def)
  have listed: "\<exists>r. fst (get_chat_messages w' uid' chat_id ?s') = Inr r \<and> ?d \<in> set r" for w' uid'
  proof -
    have "db ?s' = Some c"
      using s1(1) by simp
    then have "fst (get_db w' ?s') = Inr (Some c)"
      by (simp add: get_db_cached)
    then have "fst (get_chat_messages w' uid' chat_id ?s') =
                 Inr (to_dicts (order_by ''createdAt'' ASCENDING
                        (where_eq ''conversationId'' (Str chat_id) (store ?s' ''messages''))))"
      using get_chat_messages_available by simp
    moreover have "?d \<in> set (to_dicts (order_by ''createdAt'' ASCENDING
                        (where_eq ''conversationId'' (Str chat_id) (store ?s' ''messages''))))"
      unfolding set_query by (rule image_eqI[where x = "(auto_id w, ?d)"]) simp_all
    ultimately show ?thesis by simp
  qed
  have "store ?s' ''conversations'' = store s ''conversations''"
    by simp
  then show ?thesis
    using run ev listed by blast
qed

theorem orphan_message_accepted_witness:
  "fst (get_db write_A init) = Inr (Some (Client None None))
   \<and> auto_id write_A \<notin> set (map fst (store init ''messages''))
   \<and> store init ''conversations'' = []
   \<and> fst (store_message write_A ''u1'' ''no-such-thread'' ''Hi?'' ''Hello.'' init) = Inr True
   \<and> store (snd (store_message write_A ''u1'' ''no-such-thread'' ''Hi?'' ''Hello.'' init))
       ''conversations'' = []
   \<and> (\<exists>r. fst (get_chat_messages no_credentials ''u2'' ''no-such-thread''
                 (snd (store_message write_A ''u1'' ''no-such-thread'' ''Hi?'' ''Hello.'' init))) = Inr r
          \<and> [''id'' \<mapsto> Str ''1700000000.25'', ''conversationId'' \<mapsto> Str ''no-such-thread'',
              ''question'' \<mapsto> Str ''Hi?'', ''answer'' \<mapsto> Str ''Hello.'',
              ''createdAt'' \<mapsto> Timestamp 5, ''uid'' \<mapsto> Str ''u1''] \<in> set r)"
proof -
  have h: "auto_id write_A \<notin> set (map fst (store init ''messages''))"
    by (simp add: init_def)
  have v: "server_time write_A = 5" "utcnow_timestamp_str write_A = ''1700000000.25''"
    "store init ''conversations'' = []"
    by (simp_all add: auto_id_def write_A_def init_def)
  from orphan_message_accepted [OF get_db_write_A h, of "''u1''" "''no-such-thread''" "''Hi?''" "''Hello.''"]
  obtain s' where
    r: "store_message write_A ''u1'' ''no-such-thread'' ''Hi?'' ''Hello.'' init = (Inr True, s')"
       "store s' ''conversations'' = store init ''conversations''"
       "\<forall>w' uid'. \<exists>r. fst (get_chat_messages w' uid' ''no-such-thread'' s') = Inr r
              \<and> [''id'' \<mapsto> Str (utcnow_timestamp_str write_A), ''conversationId'' \<mapsto> Str ''no-such-thread'',
                  ''question'' \<mapsto> Str ''Hi?'', ''answer'' \<mapsto> Str ''Hello.'',
                  ''createdAt'' \<mapsto> Timestamp (server_time write_A), ''uid'' \<mapsto> Str ''u1''] \<in> set r"
    by blast
  show ?thesis
    using get_db_write_A h r v by simp
qed

subsection \<open>Listing messages does not depend on the user\<close>

text \<open>
  C10. \<open>get_chat_messages\<close> does not use its \<open>uid\<close> argument: result and final state
  are the same for any two user identifiers.
\<close>

theorem get_chat_messages_ignores_uid:
  "get_chat_messages w uid1 chat_id s = get_chat_messages w uid2 chat_id s"
  by (simp add: get_chat_messages_def)

subsection \<open>The order of a query's result\<close>

lemma lex_fst_le: "((a :: 'a :: linorder), (i :: 'b :: linorder)) \<le> (b, j) \<Longrightarrow> a \<le> b"
  by (auto simp add: less_eq_prod_def)

lemma sort_field_le:
  "sort_field f x \<le> sort_field f y \<Longrightarrow> order_key f (snd x) \<le> order_key f (snd y)"
  unfolding sort_field_def by (rule lex_fst_le)

lemma sorted_order_by_ascending:
  "sorted (map (order_key f) (to_dicts (order_by f ASCENDING xs)))"
proof -
  let ?ys = "sort_key (sort_field f) (filter (\<lambda>x. snd x f \<noteq> None) xs)"
  have "sorted (map (sort_field f) ?ys)"
    by (rule sorted_sort_key)
  then have "sorted_wrt (\<lambda>x y. sort_field f x \<le> sort_field f y) ?ys"
    by (simp add: sorted_wrt_map)
  then have "sorted_wrt (\<lambda>x y. order_key f (snd x) \<le> order_key f (snd y)) ?ys"
    by (rule sorted_wrt_mono_rel[rotated]) (rule sort_field_le)
  then show ?thesis
    by (simp add: to_dicts_def order_by_def sorted_wrt_map)
qed

lemma sorted_order_by_descending:
  "sorted_wrt (\<lambda>a b. order_key f b \<le> order_key f a) (to_dicts (order_by f DESCENDING xs))"
proof -
  have "to_dicts (order_by f DESCENDING xs) = rev (to_dicts (order_by f ASCENDING xs))"
    by (simp add: to_dicts_def order_by_def rev_map)
  moreover have "sorted_wrt (\<lambda>a b. order_key f a \<le> order_key f b) (to_dicts (order_by f ASCENDING xs))"
    using sorted_order_by_ascending[of f xs] by (simp add: sorted_wrt_map)
  ultimately show ?thesis
    by (simp add: sorted_wrt_rev)
qed

lemma order_key_Timestamp: "d f = Some (Timestamp t) \<Longrightarrow> order_key f d = (0, t, [])"
  by (simp add: order_key_def fval_key_def)

lemma strictly_descending:
  assumes "sorted_wrt (\<lambda>a b. k b \<le> k a) r" and "distinct (map k r)"
  shows "sorted_wrt (\<lambda>a b. (k b :: 'k :: linorder) < k a) r"
  using assms by (induction r) (auto simp add: less_le intro: rev_image_eqI)

lemma strictly_ascending:
  assumes "sorted_wrt (\<lambda>a b. k a \<le> k b) r" and "distinct (map k r)"
  shows "sorted_wrt (\<lambda>a b. (k a :: 'k :: linorder) < k b) r"
  using assms by (induction r) (auto simp add: less_le intro: rev_image_eqI)

lemma sorted_before:
  assumes "sorted (map k xs)" and "x \<in> set xs" and "y \<in> set xs" and "k x < k y"
  shows "\<exists>as bs cs. xs = as @ x # bs @ y # cs"
proof -
  obtain as rest where xs: "xs = as @ x # rest"
    using assms(2) by (auto dest: split_list)
  have "y \<notin> set as"
  proof
    assume "y \<in> set as"
    then have "k y \<le> k x"
      using assms(1) by (simp add: xs sorted_append)
    then show False
      using assms(4) by simp
  qed
  moreover have "y \<noteq> x"
    using assms(4) by auto
  ultimately have "y \<in> set rest"
    using assms(3) by (simp add: xs)
  then obtain bs cs where "rest = bs @ y # cs"
    by (auto dest: split_list)
  then show ?thesis
    using xs by blast
qed


lemma timestamps_descending:
  assumes "sorted_wrt (\<lambda>a b. order_key f b \<le> order_key f a) r"
  shows "sorted_wrt (\<lambda>a b. \<forall>ta tb. a f = Some (Timestamp ta) \<and> b f = Some (Timestamp tb)
                               \<longrightarrow> tb \<le> ta) r"
  using assms
  by (rule sorted_wrt_mono_rel[rotated]) (auto simp add: order_key_Timestamp)

lemma timestamps_strictly_descending:
  assumes "sorted_wrt (\<lambda>a b. order_key f b < order_key f a) r"
  shows "sorted_wrt (\<lambda>a b. \<forall>ta tb. a f = Some (Timestamp ta) \<and> b f = Some (Timestamp tb)
                               \<longrightarrow> tb < ta) r"
  using assms
  by (rule sorted_wrt_mono_rel[rotated]) (auto simp add: order_key_Timestamp)

lemma timestamps_ascending:
  assumes "sorted_wrt (\<lambda>a b. order_key f a \<le> order_key f b) r"
  shows "sorted_wrt (\<lambda>a b. \<forall>ta tb. a f = Some (Timestamp ta) \<and> b f = Some (Timestamp tb)
                               \<longrightarrow> ta \<le> tb) r"
  using assms
  by (rule sorted_wrt_mono_rel[rotated]) (auto simp add: order_key_Timestamp)

lemma timestamps_strictly_ascending:
  assumes "sorted_wrt (\<lambda>a b. order_key f a < order_key f b) r"
  shows "sorted_wrt (\<lambda>a b. \<forall>ta tb. a f = Some (Timestamp ta) \<and> b f = Some (Timestamp tb)
                               \<longrightarrow> ta < tb) r"
  using assms
  by (rule sorted_wrt_mono_rel[rotated]) (auto simp add: order_key_Timestamp)

lemma query_empty:
  assumes "\<forall>x\<in>set xs. snd x g \<noteq> Some v"
  shows "to_dicts (order_by f dir (where_eq g v xs)) = []"
proof -
  have "where_eq g v xs = []"
    using assms by (simp add: where_eq_def filter_empty_conv)
  then show ?thesis
    by (cases dir) (simp_all add: to_dicts_def order_by_def)
qed

subsection \<open>Listing threads\<close>

text \<open>
  C6, as amended. With a handle available, \<open>get_chat_threads\<close> returns, as field
  mappings, exactly the documents of \<open>conversations\<close> whose \<open>uid\<close> is the given user
  and that have a \<open>createdAt\<close> field (every thread record has one), each as often as it is
  stored. They are in descending order of \<open>createdAt\<close>, in the store's order on values,
  which on timestamps is the order of time: a record's creation time is never before that
  of a record after it. The order is strict when the records listed have pairwise different
  \<open>createdAt\<close> values. For a user with no thread the result is the empty list, not an
  error.
\<close>

theorem get_chat_threads_lists:
  assumes "fst (get_db w s) = Inr (Some c)"
  shows "\<exists>r. get_chat_threads w uid s =
               (Inr r, log (StoreQuery ''conversations'') (snd (get_db w s)))
       \<and> mset r =
           mset (map snd (filter (\<lambda>x. snd x ''uid'' = Some (Str uid) \<and> snd x ''createdAt'' \<noteq> None)
                            (store s ''conversations'')))
       \<and> sorted_wrt (\<lambda>a b. order_key ''createdAt'' b \<le> order_key ''createdAt'' a) r
       \<and> sorted_wrt (\<lambda>a b. \<forall>ta tb. a ''createdAt'' = Some (Timestamp ta)
                                  \<and> b ''createdAt'' = Some (Timestamp tb) \<longrightarrow> tb \<le> ta) r
       \<and> (distinct (map (order_key ''createdAt'') r) \<longrightarrow>
            sorted_wrt (\<lambda>a b. \<forall>ta tb. a ''createdAt'' = Some (Timestamp ta)
                                     \<and> b ''createdAt'' = Some (Timestamp tb) \<longrightarrow> tb < ta) r)
       \<and> ((\<forall>x\<in>set (store s ''conversations''). snd x ''uid'' \<noteq> Some (Str uid)) \<longrightarrow> r = [])"
proof -
  let ?r = "to_dicts (order_by ''createdAt'' DESCENDING
              (where_eq ''uid'' (Str uid) (store s ''conversations'')))"
  have run: "get_chat_threads w uid s =
               (Inr ?r, log (StoreQuery ''conversations'') (snd (get_db w s)))"
    by (rule get_chat_threads_available[OF assms])
  have all: "mset ?r =
           mset (map snd (filter (\<lambda>x. snd x ''uid'' = Some (Str uid) \<and> snd x ''createdAt'' \<noteq> None)
                            (store s ''conversations'')))"
    by (rule mset_query)
  have desc: "sorted_wrt (\<lambda>a b. order_key ''createdAt'' b \<le> order_key ''createdAt'' a) ?r"
    by (rule sorted_order_by_descending)
  have times: "sorted_wrt (\<lambda>a b. \<forall>ta tb. a ''createdAt'' = Some (Timestamp ta)
                                  \<and> b ''createdAt'' = Some (Timestamp tb) \<longrightarrow> tb \<le> ta) ?r"
    by (rule timestamps_descending[OF desc])
  have strict: "sorted_wrt (\<lambda>a b. \<forall>ta tb. a ''createdAt'' = Some (Timestamp ta)
                                     \<and> b ''createdAt'' = Some (Timestamp tb) \<longrightarrow> tb < ta) ?r"
    if "distinct (map (order_key ''createdAt'') ?r)"
    by (rule timestamps_strictly_descending[OF strictly_descending[OF desc that]])
  have none: "?r = []" if "\<forall>x\<in>set (store s ''conversations''). snd x ''uid'' \<noteq> Some (Str uid)"
    by (rule query_empty[OF that])
  show ?thesis
    using run all desc times strict none by blast
qed

lemma store_two_threads:
  "db two_threads = Some (Client None None)"
  "store two_threads ''conversations'' =
     [(''A1'', [''id'' \<mapsto> Str ''A1'', ''title'' \<mapsto> Str ''First'',
                ''createdAt'' \<mapsto> Timestamp 5, ''uid'' \<mapsto> Str ''u1'']),
      (''B2'', [''id'' \<mapsto> Str ''B2'', ''title'' \<mapsto> Str ''Second'',
                ''createdAt'' \<mapsto> Timestamp 9, ''uid'' \<mapsto> Str ''u1''])]"
  by (simp_all add: auto_id_def two_threads_def create_new_chat_def get_db_def try_body_def default_client_def
      doc_set_def write_A_def write_B_later_def default_credentials_def no_credentials_def
      init_def log_def truthy_def resolve_thread Let_def)

lemma store_tied_threads:
  "db tied_threads = Some (Client None None)"
  "store tied_threads ''conversations'' =
     [(''A1'', [''id'' \<mapsto> Str ''A1'', ''title'' \<mapsto> Str ''First'',
                ''createdAt'' \<mapsto> Timestamp 5, ''uid'' \<mapsto> Str ''u1'']),
      (''B2'', [''id'' \<mapsto> Str ''B2'', ''title'' \<mapsto> Str ''Second'',
                ''createdAt'' \<mapsto> Timestamp 5, ''uid'' \<mapsto> Str ''u1''])]"
  by (simp_all add: auto_id_def tied_threads_def create_new_chat_def get_db_def try_body_def default_client_def
      doc_set_def write_A_def write_B_same_time_def default_credentials_def no_credentials_def
      init_def log_def truthy_def resolve_thread Let_def)

lemma list_tied_threads:
  "fst (get_chat_threads no_credentials ''u1'' tied_threads) =
     Inr [[''id'' \<mapsto> Str ''B2'', ''title'' \<mapsto> Str ''Second'',
           ''createdAt'' \<mapsto> Timestamp 5, ''uid'' \<mapsto> Str ''u1''],
          [''id'' \<mapsto> Str ''A1'', ''title'' \<mapsto> Str ''First'',
           ''createdAt'' \<mapsto> Timestamp 5, ''uid'' \<mapsto> Str ''u1'']]"
  by (simp add: get_chat_threads_def get_db_cached[OF store_tied_threads(1)] store_tied_threads(2)
      to_dicts_def order_by_def where_eq_def sort_field_def order_key_def fval_key_def)

text \<open>
  The claim as it stands fails: two threads of one user created at the same reading of the
  server's clock are both listed, and their creation times do not descend strictly.
\<close>

theorem tied_threads_counterexample:
  "fst (get_chat_threads no_credentials ''u1'' tied_threads) =
     Inr [[''id'' \<mapsto> Str ''B2'', ''title'' \<mapsto> Str ''Second'',
           ''createdAt'' \<mapsto> Timestamp 5, ''uid'' \<mapsto> Str ''u1''],
          [''id'' \<mapsto> Str ''A1'', ''title'' \<mapsto> Str ''First'',
           ''createdAt'' \<mapsto> Timestamp 5, ''uid'' \<mapsto> Str ''u1'']]
   \<and> \<not> sorted_wrt (\<lambda>a b. \<forall>ta tb. a ''createdAt'' = Some (Timestamp ta)
                               \<and> b ''createdAt'' = Some (Timestamp tb) \<longrightarrow> tb < ta)
         [[''id'' \<mapsto> Str ''B2'', ''title'' \<mapsto> Str ''Second'',
           ''createdAt'' \<mapsto> Timestamp 5, ''uid'' \<mapsto> Str ''u1''],
          [''id'' \<mapsto> Str ''A1'', ''title'' \<mapsto> Str ''First'',
           ''createdAt'' \<mapsto> Timestamp 5, ''uid'' \<mapsto> Str ''u1'']]"
  by (simp add: list_tied_threads)


lemma list_two_threads:
  "fst (get_chat_threads no_credentials ''u1'' two_threads) =
     Inr [[''id'' \<mapsto> Str ''B2'', ''title'' \<mapsto> Str ''Second'',
           ''createdAt'' \<mapsto> Timestamp 9, ''uid'' \<mapsto> Str ''u1''],
          [''id'' \<mapsto> Str ''A1'', ''title'' \<mapsto> Str ''First'',
           ''createdAt'' \<mapsto> Timestamp 5, ''uid'' \<mapsto> Str ''u1'']]"
  by (simp add: get_chat_threads_def get_db_cached[OF store_two_threads(1)] store_two_threads(2)
      to_dicts_def order_by_def where_eq_def sort_field_def order_key_def fval_key_def)

theorem get_chat_threads_lists_witness:
  "fst (get_db no_credentials two_threads) = Inr (Some (Client None None))
   \<and> fst (get_chat_threads no_credentials ''u1'' two_threads) =
       Inr [[''id'' \<mapsto> Str ''B2'', ''title'' \<mapsto> Str ''Second'',
             ''createdAt'' \<mapsto> Timestamp 9, ''uid'' \<mapsto> Str ''u1''],
            [''id'' \<mapsto> Str ''A1'', ''title'' \<mapsto> Str ''First'',
             ''createdAt'' \<mapsto> Timestamp 5, ''uid'' \<mapsto> Str ''u1'']]
   \<and> distinct (map (order_key ''createdAt'')
         [[''id'' \<mapsto> Str ''B2'', ''title'' \<mapsto> Str ''Second'',
           ''createdAt'' \<mapsto> Timestamp 9, ''uid'' \<mapsto> Str ''u1''],
          [''id'' \<mapsto> Str ''A1'', ''title'' \<mapsto> Str ''First'',
           ''createdAt'' \<mapsto> Timestamp 5, ''uid'' \<mapsto> Str ''u1'']])
   \<and> sorted_wrt (\<lambda>a b. \<forall>ta tb. a ''createdAt'' = Some (Timestamp ta)
                             \<and> b ''createdAt'' = Some (Timestamp tb) \<longrightarrow> tb < ta)
         [[''id'' \<mapsto> Str ''B2'', ''title'' \<mapsto> Str ''Second'',
           ''createdAt'' \<mapsto> Timestamp 9, ''uid'' \<mapsto> Str ''u1''],
          [''id'' \<mapsto> Str ''A1'', ''title'' \<mapsto> Str ''First'',
           ''createdAt'' \<mapsto> Timestamp 5, ''uid'' \<mapsto> Str ''u1'']]
   \<and> fst (get_chat_threads no_credentials ''nobody'' two_threads) = Inr []"
proof -
  have a: "fst (get_db no_credentials two_threads) = Inr (Some (Client None None))"
    by (simp add: get_db_cached[OF store_two_threads(1)])
  have d: "distinct (map (order_key ''createdAt'')
         [[''id'' \<mapsto> Str ''B2'', ''title'' \<mapsto> Str ''Second'',
           ''createdAt'' \<mapsto> Timestamp 9, ''uid'' \<mapsto> Str ''u1''],
          [''id'' \<mapsto> Str ''A1'', ''title'' \<mapsto> Str ''First'',
           ''createdAt'' \<mapsto> Timestamp 5, ''uid'' \<mapsto> Str ''u1'']])"
    by (simp add: order_key_def fval_key_def)
  have n: "\<forall>x\<in>set (store two_threads ''conversations''). snd x ''uid'' \<noteq> Some (Str ''nobody'')"
    by (simp add: store_two_threads(2))
  show ?thesis
    using a d n list_two_threads
      get_chat_threads_lists [OF a, of "''u1''"]
      get_chat_threads_lists [OF a, of "''nobody''"]
    by auto
qed

subsection \<open>Listing messages\<close>

text \<open>
  C7, as amended. With a handle available, \<open>get_chat_messages\<close> returns exactly the
  documents of \<open>messages\<close> whose \<open>conversationId\<close> is the given thread and that have a
  \<open>createdAt\<close> field, in ascending order of \<open>createdAt\<close> (on timestamps: a record's
  creation time is never after that of a record after it), strictly so when the records
  listed have pairwise different \<open>createdAt\<close> values. And when two messages are appended
  to one thread, under document names that are new and differ, the server's clock being
  later at the second write than at the first, a later listing of that thread returns the
  first message before the second.
\<close>

theorem get_chat_messages_lists:
  assumes "fst (get_db w s) = Inr (Some c)"
  shows "(\<exists>r. get_chat_messages w uid chat_id s =
                (Inr r, log (StoreQuery ''messages'') (snd (get_db w s)))
          \<and> mset r =
              mset (map snd (filter (\<lambda>x. snd x ''conversationId'' = Some (Str chat_id)
                                        \<and> snd x ''createdAt'' \<noteq> None)
                               (store s ''messages'')))
          \<and> sorted (map (order_key ''createdAt'') r)
          \<and> sorted_wrt (\<lambda>a b. \<forall>ta tb. a ''createdAt'' = Some (Timestamp ta)
                                     \<and> b ''createdAt'' = Some (Timestamp tb) \<longrightarrow> ta \<le> tb) r
          \<and> (distinct (map (order_key ''createdAt'') r) \<longrightarrow>
               sorted_wrt (\<lambda>a b. \<forall>ta tb. a ''createdAt'' = Some (Timestamp ta)
                                        \<and> b ''createdAt'' = Some (Timestamp tb) \<longrightarrow> ta < tb) r))
       \<and> (\<forall>w2 w3 u1 q1 a1 u2 q2 a2 u3.
             auto_id w \<notin> set (map fst (store s ''messages''))
             \<and> auto_id w2 \<notin> set (map fst (store s ''messages''))
             \<and> auto_id w2 \<noteq> auto_id w
             \<and> server_time w < server_time w2 \<longrightarrow>
             (\<exists>s1 s2 r xs ys zs.
                store_message w u1 chat_id q1 a1 s = (Inr True, s1)
                \<and> store_message w2 u2 chat_id q2 a2 s1 = (Inr True, s2)
                \<and> fst (get_chat_messages w3 u3 chat_id s2) = Inr r
                \<and> r = xs @ [''id'' \<mapsto> Str (utcnow_timestamp_str w), ''conversationId'' \<mapsto> Str chat_id,
                            ''question'' \<mapsto> Str q1, ''answer'' \<mapsto> Str a1,
                            ''createdAt'' \<mapsto> Timestamp (server_time w), ''uid'' \<mapsto> Str u1]
                         # ys @ [''id'' \<mapsto> Str (utcnow_timestamp_str w2), ''conversationId'' \<mapsto> Str chat_id,
                                 ''question'' \<mapsto> Str q2, ''answer'' \<mapsto> Str a2,
                                 ''createdAt'' \<mapsto> Timestamp (server_time w2), ''uid'' \<mapsto> Str u2]
                         # zs))"
proof (intro conjI allI impI)
  let ?r = "to_dicts (order_by ''createdAt'' ASCENDING
              (where_eq ''conversationId'' (Str chat_id) (store s ''messages'')))"
  have run: "get_chat_messages w uid chat_id s =
               (Inr ?r, log (StoreQuery ''messages'') (snd (get_db w s)))"
    by (rule get_chat_messages_available[OF assms])
  have all: "mset ?r =
              mset (map snd (filter (\<lambda>x. snd x ''conversationId'' = Some (Str chat_id)
                                        \<and> snd x ''createdAt'' \<noteq> None)
                               (store s ''messages'')))"
    by (rule mset_query)
  have asc: "sorted (map (order_key ''createdAt'') ?r)"
    by (rule sorted_order_by_ascending)
  then have asc': "sorted_wrt (\<lambda>a b. order_key ''createdAt'' a \<le> order_key ''createdAt'' b) ?r"
    by (simp add: sorted_wrt_map)
  have times: "sorted_wrt (\<lambda>a b. \<forall>ta tb. a ''createdAt'' = Some (Timestamp ta)
                                     \<and> b ''createdAt'' = Some (Timestamp tb) \<longrightarrow> ta \<le> tb) ?r"
    by (rule timestamps_ascending[OF asc'])
  have strict: "sorted_wrt (\<lambda>a b. \<forall>ta tb. a ''createdAt'' = Some (Timestamp ta)
                                        \<and> b ''createdAt'' = Some (Timestamp tb) \<longrightarrow> ta < tb) ?r"
    if "distinct (map (order_key ''createdAt'') ?r)"
    by (rule timestamps_strictly_ascending[OF strictly_ascending[OF asc' that]])
  show "\<exists>r. get_chat_messages w uid chat_id s =
                (Inr r, log (StoreQuery ''messages'') (snd (get_db w s)))
          \<and> mset r =
              mset (map snd (filter (\<lambda>x. snd x ''conversationId'' = Some (Str chat_id)
                                        \<and> snd x ''createdAt'' \<noteq> None)
                               (store s ''messages'')))
          \<and> sorted (map (order_key ''createdAt'') r)
          \<and> sorted_wrt (\<lambda>a b. \<forall>ta tb. a ''createdAt'' = Some (Timestamp ta)
                                     \<and> b ''createdAt'' = Some (Timestamp tb) \<longrightarrow> ta \<le> tb) r
          \<and> (distinct (map (order_key ''createdAt'') r) \<longrightarrow>
               sorted_wrt (\<lambda>a b. \<forall>ta tb. a ''createdAt'' = Some (Timestamp ta)
                                        \<and> b ''createdAt'' = Some (Timestamp tb) \<longrightarrow> ta < tb) r)"
    using run all asc times strict by blast
next
  fix w2 w3 :: world and u1 q1 a1 u2 q2 a2 u3 :: string
  assume h: "auto_id w \<notin> set (map fst (store s ''messages''))
             \<and> auto_id w2 \<notin> set (map fst (store s ''messages''))
             \<and> auto_id w2 \<noteq> auto_id w
             \<and> server_time w < server_time w2"
  let ?m1 = "[''id'' \<mapsto> Str (utcnow_timestamp_str w), ''conversationId'' \<mapsto> Str chat_id,
              ''question'' \<mapsto> Str q1, ''answer'' \<mapsto> Str a1,
              ''createdAt'' \<mapsto> Timestamp (server_time w), ''uid'' \<mapsto> Str u1]"
  let ?m2 = "[''id'' \<mapsto> Str (utcnow_timestamp_str w2), ''conversationId'' \<mapsto> Str chat_id,
              ''question'' \<mapsto> Str q2, ''answer'' \<mapsto> Str a2,
              ''createdAt'' \<mapsto> Timestamp (server_time w2), ''uid'' \<mapsto> Str u2]"
  let ?s1 = "(log (StoreWrite ''messages'' (auto_id w)) (snd (get_db w s)))
               \<lparr>store := (store s)(''messages'' := store s ''messages'' @ [(auto_id w, ?m1)])\<rparr>"
  let ?s2 = "(log (StoreWrite ''messages'' (auto_id w2)) ?s1)
               \<lparr>store := (store ?s1)(''messages'' := store ?s1 ''messages'' @ [(auto_id w2, ?m2)])\<rparr>"
  let ?r = "to_dicts (order_by ''createdAt'' ASCENDING
              (where_eq ''conversationId'' (Str chat_id) (store ?s2 ''messages'')))"
  have first: "store_message w u1 chat_id q1 a1 s = (Inr True, ?s1)"
    using store_message_available[OF assms] h by simp
  have db1: "db ?s1 = Some c"
    using get_db_available(2)[OF assms] by simp
  then have g1: "get_db w2 ?s1 = (Inr (Some c), ?s1)"
    by (rule get_db_cached)
  have fresh2: "auto_id w2 \<notin> set (map fst (store ?s1 ''messages''))"
    using h by simp
  have second: "store_message w2 u2 chat_id q2 a2 ?s1 = (Inr True, ?s2)"
    using store_message_available[of w2 ?s1 c, OF _ fresh2] g1 by simp
  have "db ?s2 = Some c"
    using db1 by simp
  then have "fst (get_db w3 ?s2) = Inr (Some c)"
    by (simp add: get_db_cached)
  then have third: "fst (get_chat_messages w3 u3 chat_id ?s2) = Inr ?r"
    using get_chat_messages_available by simp
  have in1: "?m1 \<in> set ?r"
    unfolding set_query by (rule image_eqI[where x = "(auto_id w, ?m1)"]) simp_all
  have in2: "?m2 \<in> set ?r"
    unfolding set_query by (rule image_eqI[where x = "(auto_id w2, ?m2)"]) simp_all
  have "order_key ''createdAt'' ?m1 < order_key ''createdAt'' ?m2"
    using h by (simp add: order_key_def fval_key_def)
  then have "\<exists>xs ys zs. ?r = xs @ ?m1 # ys @ ?m2 # zs"
    using sorted_before[OF sorted_order_by_ascending in1 in2] by simp
  then show "\<exists>s1 s2 r xs ys zs.
                store_message w u1 chat_id q1 a1 s = (Inr True, s1)
                \<and> store_message w2 u2 chat_id q2 a2 s1 = (Inr True, s2)
                \<and> fst (get_chat_messages w3 u3 chat_id s2) = Inr r
                \<and> r = xs @ ?m1 # ys @ ?m2 # zs"
    using first second third by blast
qed


lemma store_two_messages:
  "db two_messages = Some (Client None None)"
  "store two_messages ''messages'' =
     [(''A1'', [''id'' \<mapsto> Str ''1700000000.25'', ''conversationId'' \<mapsto> Str ''T1'',
                ''question'' \<mapsto> Str ''Q1'', ''answer'' \<mapsto> Str ''R1'',
                ''createdAt'' \<mapsto> Timestamp 5, ''uid'' \<mapsto> Str ''u1'']),
      (''B2'', [''id'' \<mapsto> Str ''1700000000.75'', ''conversationId'' \<mapsto> Str ''T1'',
                ''question'' \<mapsto> Str ''Q2'', ''answer'' \<mapsto> Str ''R2'',
                ''createdAt'' \<mapsto> Timestamp 9, ''uid'' \<mapsto> Str ''u1''])]"
  by (simp_all add: auto_id_def two_messages_def store_message_def coll_add_def get_db_def try_body_def
      default_client_def write_A_def write_B_later_def default_credentials_def
      no_credentials_def init_def log_def truthy_def resolve_message Let_def)

lemma store_tied_messages:
  "db tied_messages = Some (Client None None)"
  "store tied_messages ''messages'' =
     [(''A1'', [''id'' \<mapsto> Str ''1700000000.25'', ''conversationId'' \<mapsto> Str ''T1'',
                ''question'' \<mapsto> Str ''Q1'', ''answer'' \<mapsto> Str ''R1'',
                ''createdAt'' \<mapsto> Timestamp 5, ''uid'' \<mapsto> Str ''u1'']),
      (''0Z'', [''id'' \<mapsto> Str ''1700000000.75'', ''conversationId'' \<mapsto> Str ''T1'',
                ''question'' \<mapsto> Str ''Q2'', ''answer'' \<mapsto> Str ''R2'',
                ''createdAt'' \<mapsto> Timestamp 5, ''uid'' \<mapsto> Str ''u1''])]"
  by (simp_all add: auto_id_def tied_messages_def store_message_def coll_add_def get_db_def try_body_def
      default_client_def write_A_def write_0_same_time_def default_credentials_def
      no_credentials_def init_def log_def truthy_def resolve_message Let_def)

lemma list_two_messages:
  "fst (get_chat_messages no_credentials ''u2'' ''T1'' two_messages) =
     Inr [[''id'' \<mapsto> Str ''1700000000.25'', ''conversationId'' \<mapsto> Str ''T1'',
           ''question'' \<mapsto> Str ''Q1'', ''answer'' \<mapsto> Str ''R1'',
           ''createdAt'' \<mapsto> Timestamp 5, ''uid'' \<mapsto> Str ''u1''],
          [''id'' \<mapsto> Str ''1700000000.75'', ''conversationId'' \<mapsto> Str ''T1'',
           ''question'' \<mapsto> Str ''Q2'', ''answer'' \<mapsto> Str ''R2'',
           ''createdAt'' \<mapsto> Timestamp 9, ''uid'' \<mapsto> Str ''u1'']]"
  by (simp add: get_chat_messages_def get_db_cached[OF store_two_messages(1)]
      store_two_messages(2) to_dicts_def order_by_def where_eq_def sort_field_def order_key_def
      fval_key_def)

lemma list_tied_messages:
  "fst (get_chat_messages no_credentials ''u1'' ''T1'' tied_messages) =
     Inr [[''id'' \<mapsto> Str ''1700000000.75'', ''conversationId'' \<mapsto> Str ''T1'',
           ''question'' \<mapsto> Str ''Q2'', ''answer'' \<mapsto> Str ''R2'',
           ''createdAt'' \<mapsto> Timestamp 5, ''uid'' \<mapsto> Str ''u1''],
          [''id'' \<mapsto> Str ''1700000000.25'', ''conversationId'' \<mapsto> Str ''T1'',
           ''question'' \<mapsto> Str ''Q1'', ''answer'' \<mapsto> Str ''R1'',
           ''createdAt'' \<mapsto> Timestamp 5, ''uid'' \<mapsto> Str ''u1'']]"
  by (simp add: get_chat_messages_def get_db_cached[OF store_tied_messages(1)]
      store_tied_messages(2) to_dicts_def order_by_def where_eq_def sort_field_def order_key_def
      fval_key_def)

text \<open>
  The claim as it stands fails: of two messages appended to one thread at the same reading
  of the server's clock, the listing's creation times do not ascend strictly, and here the
  message appended second comes first (the store breaks the tie by document name).
\<close>

theorem tied_messages_counterexample:
  "fst (get_chat_messages no_credentials ''u1'' ''T1'' tied_messages) =
     Inr [[''id'' \<mapsto> Str ''1700000000.75'', ''conversationId'' \<mapsto> Str ''T1'',
           ''question'' \<mapsto> Str ''Q2'', ''answer'' \<mapsto> Str ''R2'',
           ''createdAt'' \<mapsto> Timestamp 5, ''uid'' \<mapsto> Str ''u1''],
          [''id'' \<mapsto> Str ''1700000000.25'', ''conversationId'' \<mapsto> Str ''T1'',
           ''question'' \<mapsto> Str ''Q1'', ''answer'' \<mapsto> Str ''R1'',
           ''createdAt'' \<mapsto> Timestamp 5, ''uid'' \<mapsto> Str ''u1'']]
   \<and> \<not> sorted_wrt (\<lambda>a b. \<forall>ta tb. a ''createdAt'' = Some (Timestamp ta)
                               \<and> b ''createdAt'' = Some (Timestamp tb) \<longrightarrow> ta < tb)
         [[''id'' \<mapsto> Str ''1700000000.75'', ''conversationId'' \<mapsto> Str ''T1'',
           ''question'' \<mapsto> Str ''Q2'', ''answer'' \<mapsto> Str ''R2'',
           ''createdAt'' \<mapsto> Timestamp 5, ''uid'' \<mapsto> Str ''u1''],
          [''id'' \<mapsto> Str ''1700000000.25'', ''conversationId'' \<mapsto> Str ''T1'',
           ''question'' \<mapsto> Str ''Q1'', ''answer'' \<mapsto> Str ''R1'',
           ''createdAt'' \<mapsto> Timestamp 5, ''uid'' \<mapsto> Str ''u1'']]"
  by (simp add: list_tied_messages)

theorem get_chat_messages_lists_witness:
  "fst (get_db write_A init) = Inr (Some (Client None None))
   \<and> auto_id write_A \<notin> set (map fst (store init ''messages''))
   \<and> auto_id write_B_later \<notin> set (map fst (store init ''messages''))
   \<and> auto_id write_B_later \<noteq> auto_id write_A
   \<and> server_time write_A < server_time write_B_later
   \<and> fst (get_chat_messages no_credentials ''u2'' ''T1'' two_messages) =
       Inr [[''id'' \<mapsto> Str ''1700000000.25'', ''conversationId'' \<mapsto> Str ''T1'',
             ''question'' \<mapsto> Str ''Q1'', ''answer'' \<mapsto> Str ''R1'',
             ''createdAt'' \<mapsto> Timestamp 5, ''uid'' \<mapsto> Str ''u1''],
            [''id'' \<mapsto> Str ''1700000000.75'', ''conversationId'' \<mapsto> Str ''T1'',
             ''question'' \<mapsto> Str ''Q2'', ''answer'' \<mapsto> Str ''R2'',
             ''createdAt'' \<mapsto> Timestamp 9, ''uid'' \<mapsto> Str ''u1'']]
   \<and> sorted_wrt (\<lambda>a b. \<forall>ta tb. a ''createdAt'' = Some (Timestamp ta)
                             \<and> b ''createdAt'' = Some (Timestamp tb) \<longrightarrow> ta < tb)
         [[''id'' \<mapsto> Str ''1700000000.25'', ''conversationId'' \<mapsto> Str ''T1'',
           ''question'' \<mapsto> Str ''Q1'', ''answer'' \<mapsto> Str ''R1'',
           ''createdAt'' \<mapsto> Timestamp 5, ''uid'' \<mapsto> Str ''u1''],
          [''id'' \<mapsto> Str ''1700000000.75'', ''conversationId'' \<mapsto> Str ''T1'',
           ''question'' \<mapsto> Str ''Q2'', ''answer'' \<mapsto> Str ''R2'',
           ''createdAt'' \<mapsto> Timestamp 9, ''uid'' \<mapsto> Str ''u1'']]
   \<and> (\<exists>xs ys zs.
         [[''id'' \<mapsto> Str ''1700000000.25'', ''conversationId'' \<mapsto> Str ''T1'',
           ''question'' \<mapsto> Str ''Q1'', ''answer'' \<mapsto> Str ''R1'',
           ''createdAt'' \<mapsto> Timestamp 5, ''uid'' \<mapsto> Str ''u1''],
          [''id'' \<mapsto> Str ''1700000000.75'', ''conversationId'' \<mapsto> Str ''T1'',
           ''question'' \<mapsto> Str ''Q2'', ''answer'' \<mapsto> Str ''R2'',
           ''createdAt'' \<mapsto> Timestamp 9, ''uid'' \<mapsto> Str ''u1'']] =
         xs @ [''id'' \<mapsto> Str ''1700000000.25'', ''conversationId'' \<mapsto> Str ''T1'',
               ''question'' \<mapsto> Str ''Q1'', ''answer'' \<mapsto> Str ''R1'',
               ''createdAt'' \<mapsto> Timestamp 5, ''uid'' \<mapsto> Str ''u1'']
            # ys @ [''id'' \<mapsto> Str ''1700000000.75'', ''conversationId'' \<mapsto> Str ''T1'',
                    ''question'' \<mapsto> Str ''Q2'', ''answer'' \<mapsto> Str ''R2'',
                    ''createdAt'' \<mapsto> Timestamp 9, ''uid'' \<mapsto> Str ''u1'']
            # zs)"
proof -
  let ?m1 = "[''id'' \<mapsto> Str ''1700000000.25'', ''conversationId'' \<mapsto> Str ''T1'',
              ''question'' \<mapsto> Str ''Q1'', ''answer'' \<mapsto> Str ''R1'',
              ''createdAt'' \<mapsto> Timestamp 5, ''uid'' \<mapsto> Str ''u1'']"
  let ?m2 = "[''id'' \<mapsto> Str ''1700000000.75'', ''conversationId'' \<mapsto> Str ''T1'',
              ''question'' \<mapsto> Str ''Q2'', ''answer'' \<mapsto> Str ''R2'',
              ''createdAt'' \<mapsto> Timestamp 9, ''uid'' \<mapsto> Str ''u1'']"
  have h: "auto_id write_A \<notin> set (map fst (store init ''messages''))"
    "auto_id write_B_later \<notin> set (map fst (store init ''messages''))"
    "auto_id write_B_later \<noteq> auto_id write_A"
    "server_time write_A < server_time write_B_later"
    by (simp_all add: auto_id_def init_def write_A_def write_B_later_def)
  have a: "fst (get_db no_credentials two_messages) = Inr (Some (Client None None))"
    by (simp add: get_db_cached[OF store_two_messages(1)])
  have d: "distinct (map (order_key ''createdAt'') [?m1, ?m2])"
    by (simp add: order_key_def fval_key_def)
  have "sorted_wrt (\<lambda>a b. \<forall>ta tb. a ''createdAt'' = Some (Timestamp ta)
                             \<and> b ''createdAt'' = Some (Timestamp tb) \<longrightarrow> ta < tb) [?m1, ?m2]"
    using d list_two_messages get_chat_messages_lists [OF a, of "''u2''" "''T1''"]
    by auto
  moreover have "\<exists>xs ys zs. [?m1, ?m2] = xs @ ?m1 # ys @ ?m2 # zs"
  proof -
    have v: "utcnow_timestamp_str write_A = ''1700000000.25''" "server_time write_A = 5"
      "utcnow_timestamp_str write_B_later = ''1700000000.75''" "server_time write_B_later = 9"
      by (simp_all add: auto_id_def write_A_def write_B_later_def)
    from get_chat_messages_lists [OF get_db_write_A, THEN conjunct2, rule_format,
        where ?w2.0 = write_B_later and ?w3.0 = no_credentials and ?u1.0 = "''u1''"
          and ?q1.0 = "''Q1''" and ?a1.0 = "''R1''" and ?u2.0 = "''u1''" and ?q2.0 = "''Q2''"
          and ?a2.0 = "''R2''" and ?u3.0 = "''u2''" and chat_id = "''T1''"] h
    obtain s1 s2 r xs ys zs where
      r: "store_message write_A ''u1'' ''T1'' ''Q1'' ''R1'' init = (Inr True, s1)"
         "store_message write_B_later ''u1'' ''T1'' ''Q2'' ''R2'' s1 = (Inr True, s2)"
         "fst (get_chat_messages no_credentials ''u2'' ''T1'' s2) = Inr r"
         "r = xs @ ?m1 # ys @ ?m2 # zs"
      unfolding v by blast
    have "s2 = two_messages"
      using r(1,2) by (simp add: two_messages_def)
    then have "r = [?m1, ?m2]"
      using r(3) list_two_messages by simp
    then show ?thesis
      using r(4) by blast
  qed
  ultimately show ?thesis
    using get_db_write_A h list_two_messages by simp
qed

subsection \<open>Any user identifier reads a thread\<close>

text \<open>
  The two messages that user \<open>u1\<close> appended to thread \<open>T1\<close> are returned to a caller
  who gives another user identifier.
\<close>

theorem get_chat_messages_ignores_uid_witness:
  "fst (get_chat_messages no_credentials ''someone-else'' ''T1'' two_messages) =
     Inr [[''id'' \<mapsto> Str ''1700000000.25'', ''conversationId'' \<mapsto> Str ''T1'',
           ''question'' \<mapsto> Str ''Q1'', ''answer'' \<mapsto> Str ''R1'',
           ''createdAt'' \<mapsto> Timestamp 5, ''uid'' \<mapsto> Str ''u1''],
          [''id'' \<mapsto> Str ''1700000000.75'', ''conversationId'' \<mapsto> Str ''T1'',
           ''question'' \<mapsto> Str ''Q2'', ''answer'' \<mapsto> Str ''R2'',
           ''createdAt'' \<mapsto> Timestamp 9, ''uid'' \<mapsto> Str ''u1'']]"
  using list_two_messages
    get_chat_messages_ignores_uid [of no_credentials "''someone-else''" "''T1''" two_messages "''u2''"]
  by simp

end
